theory Spec2Isabelle
  imports Main "HOL-Library.Word" "HOL-Library.Multiset" "HOL-Library.List_Lexorder"
    "HOL-Library.Char_ord"
begin

unbundle bit_operations_syntax

section \<open>Domain model (internal/models/models.go)\<close>

text \<open>
  A Go \<^verbatim>\<open>*string\<close> is a \<open>string option\<close>: \<open>None\<close> is the nil pointer. The fields
  \<^verbatim>\<open>CustomData\<close>, \<^verbatim>\<open>CreatedAt\<close> and \<^verbatim>\<open>UpdatedAt\<close> of \<^verbatim>\<open>Route\<close> are not read by
  any function embedded below and are left out.
\<close>

record Route =
  ID :: string
  AccountID :: string
  Name :: string
  Priority :: int
  MatchToUser :: "string option"
  MatchFromUser :: "string option"
  MatchSIPHeader :: "string option"
  MatchSIPHeaderValue :: "string option"
  WebSocketURL :: string
  Active :: bool

datatype CallStatus =
  CallStatusInitiated | CallStatusRinging | CallStatusAnswered
  | CallStatusCompleted | CallStatusFailed | CallStatusCancelled

text \<open>The Go test \<^verbatim>\<open>p != nil && *p != ""\<close> on a \<^verbatim>\<open>*string\<close>.\<close>

definition configured :: "string option \<Rightarrow> bool" where
  "configured p = (case p of None \<Rightarrow> False | Some v \<Rightarrow> v \<noteq> [])"

text \<open>
  \<^verbatim>\<open>func (r *Route) Matches(toUser, fromUser string, headers map[string]string) bool\<close>:
  three guarded blocks, each returning \<^verbatim>\<open>false\<close> early; \<open>the\<close> is only applied under
  \<open>configured\<close>, where the pointer is not nil.
\<close>

definition Matches :: "Route \<Rightarrow> string \<Rightarrow> string \<Rightarrow> (string \<rightharpoonup> string) \<Rightarrow> bool" where
  "Matches r toUser fromUser headers =
    (if configured (MatchToUser r) \<and> toUser \<noteq> the (MatchToUser r) then False
     else if configured (MatchFromUser r) \<and> fromUser \<noteq> the (MatchFromUser r) then False
     else if configured (MatchSIPHeader r) then
       (case headers (the (MatchSIPHeader r)) of
          None \<Rightarrow> False
        | Some headerValue \<Rightarrow>
            (if configured (MatchSIPHeaderValue r) \<and> headerValue \<noteq> the (MatchSIPHeaderValue r)
             then False else True))
     else True)"

section \<open>Errors\<close>

text \<open>
  The Go \<^verbatim>\<open>error\<close> values that the embedded functions create or pass on.
  \<open>DBError\<close> and \<open>CacheError\<close> stand for whatever the Postgres pool or the Valkey
  client returned; \<open>FailedToFindRoutes e\<close> is \<^verbatim>\<open>fmt.Errorf("failed to find routes: %w", err)\<close>,
  \<open>NoMatchingRoute to from\<close> is
  \<^verbatim>\<open>fmt.Errorf("no matching route found for to=%s from=%s", toUser, fromUser)\<close> and
  \<open>NoAvailableRTPPorts min max\<close> is
  \<^verbatim>\<open>fmt.Errorf("no available RTP ports in range %d-%d", ...)\<close>.
\<close>

datatype error =
  DBError
  | CacheError
  | FailedToFindRoutes error
  | NoMatchingRoute string string
  | NoAvailableRTPPorts int int

section \<open>Sessions, the manager and the outside world (internal/call)\<close>

type_synonym byte = "8 word"
type_synonym addr = nat
type_synonym udp_addr = "string \<times> int"

text \<open>
  A Go channel of \<^verbatim>\<open>struct{}\<close> that is only ever closed: nil, open or closed.
  \<^verbatim>\<open>close\<close> panics on a nil or on a closed channel.
\<close>

datatype chan = NilChan | OpenChan | ClosedChan

text \<open>
  The struct \<^verbatim>\<open>Session\<close>. \<open>wsConn\<close> is the handle of the dialled WebSocket (\<open>None\<close>: nil),
  \<open>rtpConn\<close> the bound UDP socket, named by the port it is bound to (\<open>None\<close>: nil),
  \<open>remoteAddr\<close> the learned peer (\<open>None\<close>: nil). The Go \<^verbatim>\<open>int\<close> is 64 bits wide; an
  \<open>int\<close> is used here and the wrap-around is written out where the code increments.
  The mutexes, the SIP transaction handle and the shared \<^verbatim>\<open>config\<close>/\<^verbatim>\<open>store\<close> pointers
  have no field: the functions below run one at a time, and the configuration and the
  store are part of \<open>World\<close>. The fields \<^verbatim>\<open>Route\<close> and \<^verbatim>\<open>WebSocketURL\<close> are
  \<open>SessionRoute\<close> and \<open>SessionWebSocketURL\<close>, the plain names being taken by the record
  \<open>Route\<close> and its field.
\<close>

record Session =
  CallID :: string
  StreamSID :: string
  FromURI :: string
  ToURI :: string
  FromUser :: string
  ToUser :: string
  SessionRoute :: Route
  SessionWebSocketURL :: string
  rtpConn :: "int option"
  rtpPort :: int
  remoteAddr :: "udp_addr option"
  wsConn :: "nat option"
  closed :: bool
  stopChan :: chan
  chunkCount :: int

text \<open>
  The two agent frames the embedded functions write (package \<^verbatim>\<open>exotel\<close> is a library
  outside this repository): \<^verbatim>\<open>NewMediaMessage(streamSID, payload, chunk, now)\<close>, without
  the clock reading, and \<^verbatim>\<open>NewStopMessage(streamSID)\<close>.
\<close>

datatype frame =
  MediaMessage string "byte list" int
  | StopMessage string

text \<open>Goroutines started with \<^verbatim>\<open>go\<close>; they are recorded, not run, at the point of the \<^verbatim>\<open>go\<close>.\<close>

datatype task =
  GoClose addr
  | GoConnectAgent addr
  | GoStartMedia addr
  | GoReceiveRTP addr

text \<open>
  What a function does to its collaborators, in the order it does it: a SIP response
  on the transaction of the request with that Call-ID, calls of the store and of the
  cache (each may fail outside; every caller embedded here only logs or drops the
  error, so a call is recorded whether or not it succeeds), operations on the session's
  sockets and stop channel, and goroutines started.
\<close>

datatype effect =
  SIPRespond string int
  | StoreCreateCallLog string CallStatus
  | StoreUpdateCallStatus string CallStatus
  | CacheRoutes string string "Route list"
  | CacheSetActiveCall string
  | CacheRemoveActiveCall string
  | CloseStopChan addr
  | WSWriteJSON nat frame
  | WSClose nat
  | UDPClose int
  | UDPWriteTo int "byte list" udp_addr
  | Go task

record Config =
  RTPPortMin :: int
  RTPPortMax :: int
  DefaultWebSocketURL :: string

text \<open>
  The state the handlers share. \<open>sessions\<close> is \<^verbatim>\<open>Manager.sessions\<close>, a map from Call-ID
  to a session pointer; \<open>heap\<close> holds the session objects the pointers refer to, and
  \<open>next_addr\<close> is the next unused address. \<open>cache\<close> is \<^verbatim>\<open>m.cache != nil\<close> (the router and
  the manager are built with the same cache in \<^verbatim>\<open>NewSIPServer\<close>). \<open>udp_free p\<close> says
  whether \<^verbatim>\<open>net.ListenUDP\<close> on port \<open>p\<close> would succeed now. \<open>trace\<close> is the list of
  effects so far, oldest first.
\<close>

record World =
  config :: Config
  cache :: bool
  sessions :: "string \<rightharpoonup> addr"
  heap :: "addr \<Rightarrow> Session"
  next_addr :: addr
  udp_free :: "int \<Rightarrow> bool"
  trace :: "effect list"

definition emit :: "effect \<Rightarrow> World \<Rightarrow> World" where
  "emit e w = w\<lparr>trace := trace w @ [e]\<rparr>"

definition upd :: "addr \<Rightarrow> (Session \<Rightarrow> Session) \<Rightarrow> World \<Rightarrow> World" where
  "upd s f w = w\<lparr>heap := (heap w)(s := f (heap w s))\<rparr>"

text \<open>A Go \<^verbatim>\<open>int\<close> after an arithmetic operation: the result modulo \<open>2^64\<close>, signed.\<close>

definition int64 :: "int \<Rightarrow> int" where
  "int64 x = (x + 2 ^ 63) mod 2 ^ 64 - 2 ^ 63"

subsection \<open>Session.sendWSMessage, Session.sendRTP\<close>

text \<open>
  \<^verbatim>\<open>sendWSMessage\<close>: an error and no write when \<^verbatim>\<open>s.wsConn == nil\<close>, otherwise
  \<^verbatim>\<open>WriteJSON\<close>. The callers embedded here drop or log the returned error.
\<close>

definition sendWSMessage :: "addr \<Rightarrow> frame \<Rightarrow> World \<Rightarrow> World" where
  "sendWSMessage s msg w =
    (case wsConn (heap w s) of
       None \<Rightarrow> w
     | Some c \<Rightarrow> emit (WSWriteJSON c msg) w)"

text \<open>
  \<^verbatim>\<open>sendRTP\<close>: nothing when the peer is not known or the socket is nil; otherwise the
  12-byte header (the local \<^verbatim>\<open>rtpHeader\<close>, a function of \<^verbatim>\<open>s.chunkCount\<close>), the payload
  appended, one \<^verbatim>\<open>WriteToUDP\<close>. \<^verbatim>\<open>byte(x)\<close> keeps the low 8
  bits; \<^verbatim>\<open>>> 8\<close> on a signed \<^verbatim>\<open>int\<close> is the arithmetic shift, \<open>drop_bit 8\<close> on \<open>int\<close>.
\<close>

definition rtpHeader :: "int \<Rightarrow> byte list" where
  "rtpHeader chunk =
    [0x80, 0x00,
     word_of_int (drop_bit 8 chunk), word_of_int chunk,
     0x00, 0x00, 0x00, 0x00,
     0x00, 0x00, 0x00, 0x01]"

definition sendRTP :: "addr \<Rightarrow> byte list \<Rightarrow> World \<Rightarrow> World" where
  "sendRTP s payload w =
    (if remoteAddr (heap w s) = None \<or> rtpConn (heap w s) = None then w
     else
       let packet = rtpHeader (chunkCount (heap w s)) @ payload
       in emit (UDPWriteTo (the (rtpConn (heap w s))) packet (the (remoteAddr (heap w s)))) w)"

subsection \<open>Session.Close\<close>

text \<open>
  \<^verbatim>\<open>Close\<close>: return at once when \<open>closed\<close>; otherwise set it, close the stop channel
  (a panic, \<open>None\<close>, on a nil or closed channel), send the Stop frame and close the
  WebSocket when there is one, close the RTP socket when there is one. Closing the UDP
  socket gives its port back to the system.
\<close>

definition Close :: "addr \<Rightarrow> World \<Rightarrow> World option" where
  "Close s w =
    (if closed (heap w s) then Some w
     else
       let w1 = upd s (\<lambda>x. x\<lparr>closed := True\<rparr>) w in
       (case stopChan (heap w1 s) of
          OpenChan \<Rightarrow>
            let w2 = emit (CloseStopChan s) (upd s (\<lambda>x. x\<lparr>stopChan := ClosedChan\<rparr>) w1);
                w3 = (case wsConn (heap w2 s) of
                        None \<Rightarrow> w2
                      | Some c \<Rightarrow>
                          upd s (\<lambda>x. x\<lparr>wsConn := None\<rparr>)
                            (emit (WSClose c)
                               (sendWSMessage s (StopMessage (StreamSID (heap w2 s))) w2)));
                w4 = (case rtpConn (heap w3 s) of
                        None \<Rightarrow> w3
                      | Some p \<Rightarrow>
                          upd s (\<lambda>x. x\<lparr>rtpConn := None\<rparr>)
                            ((emit (UDPClose p) w3)\<lparr>udp_free := (udp_free w3)(p := True)\<rparr>))
            in Some w4
        | NilChan \<Rightarrow> None
        | ClosedChan \<Rightarrow> None))"

subsection \<open>Session.allocateRTPPorts\<close>

text \<open>
  The loop \<^verbatim>\<open>for port := min; port <= max; port++\<close> with \<^verbatim>\<open>net.ListenUDP\<close> as the
  test: \<open>Some (Some p)\<close> for the first port that binds, \<open>Some None\<close> when the loop runs
  out, and \<open>None\<close> when it never ends (\<^verbatim>\<open>port++\<close> wraps at \<open>2^63 - 1\<close>, so a range
  ending there has no last iteration).
\<close>

partial_function (option) scanPorts :: "(int \<Rightarrow> bool) \<Rightarrow> int \<Rightarrow> int \<Rightarrow> int option option" where
  "scanPorts free port mx =
    (if port \<le> mx then
       (if free port then Some (Some port)
        else scanPorts free (int64 (port + 1)) mx)
     else Some None)"

text \<open>
  \<^verbatim>\<open>allocateRTPPorts\<close> runs on the session \<^verbatim>\<open>CreateSession\<close> has just built and not yet
  shared, so it takes and returns the session value, with the system's ports after the
  bind. \<open>sid\<close> is the result of \<^verbatim>\<open>uuid.New().String()\<close>. A bind on port 0 succeeds
  on an ephemeral port of the system's choice, \<open>eph\<close>, and leaves port 0 as it was; any
  other port is itself the one taken. The socket is named by the port it is bound to;
  \<^verbatim>\<open>s.rtpPort\<close> is the loop variable.
\<close>

definition allocateRTPPorts ::
  "string \<Rightarrow> int \<Rightarrow> Config \<Rightarrow> (int \<Rightarrow> bool) \<Rightarrow> Session
     \<Rightarrow> (error + Session \<times> (int \<Rightarrow> bool)) option" where
  "allocateRTPPorts sid eph cfg free s =
    (case scanPorts free (RTPPortMin cfg) (RTPPortMax cfg) of
       None \<Rightarrow> None
     | Some None \<Rightarrow> Some (Inl (NoAvailableRTPPorts (RTPPortMin cfg) (RTPPortMax cfg)))
     | Some (Some port) \<Rightarrow>
         let bound = (if port = 0 then eph else port)
         in Some (Inr (s\<lparr>StreamSID := sid, rtpConn := Some bound, rtpPort := port,
                         stopChan := OpenChan\<rparr>,
                       free(bound := False))))"

subsection \<open>Manager: CreateSession, GetSession, RemoveSession\<close>

text \<open>What the handlers read of a \<^verbatim>\<open>*sip.Request\<close>.\<close>

record Request =
  ReqCallID :: string
  ReqToURI :: string
  ReqToUser :: string
  ReqFromURI :: string
  ReqFromUser :: string
  ReqHeaders :: "(string \<times> string) list"

text \<open>
  \<^verbatim>\<open>CreateSession\<close>: build the session, allocate the port (on an error return it, before
  anything else is done), create the call-log row, set the active-call entry when there
  is a cache, store the pointer under the Call-ID. \<open>None\<close> only when the port loop does
  not end. \<open>sid\<close> and \<open>eph\<close> are passed on to \<^verbatim>\<open>allocateRTPPorts\<close>.
\<close>

definition CreateSession ::
  "string \<Rightarrow> int \<Rightarrow> string \<Rightarrow> Request \<Rightarrow> Route \<Rightarrow> World
     \<Rightarrow> ((error + addr) \<times> World) option" where
  "CreateSession sid eph callID req route w =
    (let session = \<lparr>CallID = callID, StreamSID = [], FromURI = ReqFromURI req,
                     ToURI = ReqToURI req, FromUser = ReqFromUser req, ToUser = ReqToUser req,
                     SessionRoute = route, SessionWebSocketURL = WebSocketURL route,
                     rtpConn = None, rtpPort = 0, remoteAddr = None, wsConn = None,
                     closed = False, stopChan = NilChan, chunkCount = 0\<rparr>
     in
       (case allocateRTPPorts sid eph (config w) (udp_free w) session of
          None \<Rightarrow> None
        | Some (Inl err) \<Rightarrow> Some (Inl err, w)
        | Some (Inr (session', free')) \<Rightarrow>
            let w1 = emit (StoreCreateCallLog callID CallStatusInitiated) (w\<lparr>udp_free := free'\<rparr>);
                w2 = (if cache w1 then emit (CacheSetActiveCall callID) w1 else w1);
                a = next_addr w2;
                w3 = w2\<lparr>heap := (heap w2)(a := session'), next_addr := Suc a,
                        sessions := (sessions w2)(callID \<mapsto> a)\<rparr>
            in Some (Inr a, w3)))"

definition GetSession :: "string \<Rightarrow> World \<Rightarrow> addr option" where
  "GetSession callID w = sessions w callID"

text \<open>
  \<^verbatim>\<open>RemoveSession\<close>: when the Call-ID is registered, close the session, delete the
  entry, update the call status to completed and remove the active-call entry when
  there is a cache; nothing otherwise.
\<close>

definition RemoveSession :: "string \<Rightarrow> World \<Rightarrow> World option" where
  "RemoveSession callID w =
    (case sessions w callID of
       None \<Rightarrow> Some w
     | Some session \<Rightarrow>
         (case Close session w of
            None \<Rightarrow> None
          | Some w1 \<Rightarrow>
              let w2 = w1\<lparr>sessions := (sessions w1)(callID := None)\<rparr>;
                  w3 = emit (StoreUpdateCallStatus callID CallStatusCompleted) w2;
                  w4 = (if cache w3 then emit (CacheRemoveActiveCall callID) w3 else w3)
              in Some w4))"

subsection \<open>Session.StartMedia, Session.receiveRTP\<close>

definition StartMedia :: "addr \<Rightarrow> World \<Rightarrow> World" where
  "StartMedia s w =
    emit (Go (GoReceiveRTP s))
      (emit (StoreUpdateCallStatus (CallID (heap w s)) CallStatusAnswered) w)"

text \<open>
  One pass of the receive loop after the stop check, by what the socket gives:
  \<^verbatim>\<open>SetReadDeadline\<close> fails, the read times out, the read fails, or a datagram arrives
  from an address. \<^verbatim>\<open>ReadFromUDP\<close> fills the 1500-byte buffer, so \<open>n\<close> is at most 1500.
\<close>

datatype udp_read =
  DeadlineError
  | ReadTimeout
  | ReadError
  | Datagram "byte list" udp_addr

definition receiveRTP_pass :: "addr \<Rightarrow> udp_read \<Rightarrow> World \<Rightarrow> World" where
  "receiveRTP_pass s r w =
    (case r of
       DeadlineError \<Rightarrow> w
     | ReadTimeout \<Rightarrow> w
     | ReadError \<Rightarrow> w
     | Datagram bytes a \<Rightarrow>
         let n = min (length bytes) 1500;
             buffer = take n bytes;
             w1 = (if remoteAddr (heap w s) = None
                   then upd s (\<lambda>x. x\<lparr>remoteAddr := Some a\<rparr>) w else w)
         in
           if n < 12 then w1
           else
             let payload = drop 12 buffer;
                 w2 = upd s (\<lambda>x. x\<lparr>chunkCount := int64 (chunkCount x + 1)\<rparr>) w1
             in sendWSMessage s
                  (MediaMessage (StreamSID (heap w2 s)) payload (chunkCount (heap w2 s))) w2)"

text \<open>
  The loop over the reads the socket will give, in order. It returns when the stop
  channel is closed; with no read left it waits in the read, in the state reached.
\<close>

fun receiveRTP :: "addr \<Rightarrow> udp_read list \<Rightarrow> World \<Rightarrow> World" where
  "receiveRTP s [] w = w"
| "receiveRTP s (r # rs) w =
    (if stopChan (heap w s) = ClosedChan then w
     else receiveRTP s rs (receiveRTP_pass s r w))"

subsection \<open>Session.receiveFromAgent\<close>

text \<open>
  What \<^verbatim>\<open>ReadMessage\<close>, \<^verbatim>\<open>exotel.ParseMessage\<close> and \<^verbatim>\<open>DecodeAudio\<close> give for one frame:
  a read error (a transport error or any close of the socket), a frame that does not
  parse, a Media message with its decoded audio (\<open>None\<close>: the base64 does not decode),
  Clear, Stop, or a message of another type.
\<close>

datatype agent_msg =
  MediaMsg "byte list option"
  | ClearMsg
  | StopMsg
  | OtherMsg

datatype ws_read =
  WSReadError
  | WSParseError
  | WSMessage agent_msg

datatype loop_exit = Returned | Waiting

text \<open>
  The loop over the frames the socket will give, in order: return when the stop channel
  is closed; return on a read error; skip a frame that does not parse or decode; send
  the audio of a Media message by RTP; on Stop start \<^verbatim>\<open>go s.Close()\<close> and return. With no
  frame left it waits in \<^verbatim>\<open>ReadMessage\<close>. (The loop is started by \<^verbatim>\<open>ConnectAgent\<close> once
  \<^verbatim>\<open>s.wsConn\<close> is set, and only \<^verbatim>\<open>Close\<close> clears it, after closing the stop channel.)
\<close>

fun receiveFromAgent :: "addr \<Rightarrow> ws_read list \<Rightarrow> World \<Rightarrow> loop_exit \<times> World" where
  "receiveFromAgent s [] w =
    (if stopChan (heap w s) = ClosedChan then (Returned, w) else (Waiting, w))"
| "receiveFromAgent s (r # rs) w =
    (if stopChan (heap w s) = ClosedChan then (Returned, w)
     else
       (case r of
          WSReadError \<Rightarrow> (Returned, w)
        | WSParseError \<Rightarrow> receiveFromAgent s rs w
        | WSMessage (MediaMsg None) \<Rightarrow> receiveFromAgent s rs w
        | WSMessage (MediaMsg (Some audio)) \<Rightarrow> receiveFromAgent s rs (sendRTP s audio w)
        | WSMessage ClearMsg \<Rightarrow> receiveFromAgent s rs w
        | WSMessage StopMsg \<Rightarrow> (Returned, emit (Go (GoClose s)) w)
        | WSMessage OtherMsg \<Rightarrow> receiveFromAgent s rs w))"

section \<open>Routing (package routing, store.FindMatchingRoutes)\<close>

text \<open>
  The rows \<^verbatim>\<open>FindMatchingRoutes\<close> may return from the table \<^verbatim>\<open>sip_routes\<close>: the rows that
  pass the \<^verbatim>\<open>WHERE\<close> clause, each once, in an order that satisfies
  \<^verbatim>\<open>ORDER BY priority DESC\<close>. SQL leaves the order of rows of equal priority open, so this
  is a relation between the table and the result.
\<close>

definition sql_where :: "string \<Rightarrow> string \<Rightarrow> Route \<Rightarrow> bool" where
  "sql_where toUser fromUser r =
    (Active r
     \<and> (MatchToUser r = None \<or> MatchToUser r = Some [] \<or> MatchToUser r = Some toUser)
     \<and> (MatchFromUser r = None \<or> MatchFromUser r = Some [] \<or> MatchFromUser r = Some fromUser))"

definition priority_desc :: "Route list \<Rightarrow> bool" where
  "priority_desc rs = sorted_wrt (\<lambda>a b. Priority b \<le> Priority a) rs"

definition FindMatchingRoutes_rows :: "Route list \<Rightarrow> string \<Rightarrow> string \<Rightarrow> Route list \<Rightarrow> bool" where
  "FindMatchingRoutes_rows sip_routes toUser fromUser rs =
    (mset rs = mset (filter (sql_where toUser fromUser) sip_routes) \<and> priority_desc rs)"

text \<open>The route \<^verbatim>\<open>&models.Route{Name: "default", WebSocketURL: r.defaultWSURL}\<close>.\<close>

definition default_route :: "string \<Rightarrow> Route" where
  "default_route url =
    \<lparr>ID = [], AccountID = [], Name = ''default'', Priority = 0,
     MatchToUser = None, MatchFromUser = None, MatchSIPHeader = None,
     MatchSIPHeaderValue = None, WebSocketURL = url, Active = False\<rparr>"

text \<open>
  \<^verbatim>\<open>Router.FindRoute\<close>, first half: the candidates. \<open>cached\<close> is what \<^verbatim>\<open>GetCachedRoutes\<close>
  returns when there is a cache: an error, a nil slice (\<open>Inr None\<close>, a miss) or a slice;
  \<open>stored\<close> is what \<^verbatim>\<open>FindMatchingRoutes\<close> returns when it is called. The candidates are
  the cached slice when there is one; otherwise the stored rows, which are cached when
  there is a cache and they are not empty; a store error is wrapped and returned.
\<close>

definition candidate_routes ::
  "(error + Route list option) \<Rightarrow> (error + Route list) \<Rightarrow> string \<Rightarrow> string \<Rightarrow> World
     \<Rightarrow> error + Route list \<times> World" where
  "candidate_routes cached stored toUser fromUser w =
    (let routes = (if cache w then (case cached of Inl err \<Rightarrow> None | Inr rs \<Rightarrow> rs) else None)
     in
       (case routes of
          Some rs \<Rightarrow> Inr (rs, w)
        | None \<Rightarrow>
            (case stored of
               Inl err \<Rightarrow> Inl (FailedToFindRoutes err)
             | Inr rs \<Rightarrow>
                 Inr (rs, if cache w \<and> length rs > 0
                          then emit (CacheRoutes toUser fromUser rs) w else w))))"

text \<open>
  \<^verbatim>\<open>Router.FindRoute\<close>: the first candidate that matches, in the order of the slice; else
  the default route when a default URL is configured; else the error.
\<close>

definition FindRoute ::
  "(error + Route list option) \<Rightarrow> (error + Route list) \<Rightarrow> string \<Rightarrow> string
     \<Rightarrow> (string \<rightharpoonup> string) \<Rightarrow> World \<Rightarrow> (error + Route) \<times> World" where
  "FindRoute cached stored toUser fromUser headers w =
    (case candidate_routes cached stored toUser fromUser w of
       Inl err \<Rightarrow> (Inl err, w)
     | Inr (routes, w1) \<Rightarrow>
         (case find (\<lambda>route. Matches route toUser fromUser headers) routes of
            Some route \<Rightarrow> (Inr route, w1)
          | None \<Rightarrow>
              if DefaultWebSocketURL (config w1) \<noteq> []
              then (Inr (default_route (DefaultWebSocketURL (config w1))), w1)
              else (Inl (NoMatchingRoute toUser fromUser), w1)))"

section \<open>SIP handlers (internal/server/sip.go)\<close>

text \<open>
  The headers kept for routing: those whose name is longer than two bytes and starts
  with \<^verbatim>\<open>X-\<close>, a later header of the same name replacing an earlier one.
\<close>

definition routing_headers :: "(string \<times> string) list \<Rightarrow> (string \<rightharpoonup> string)" where
  "routing_headers hs =
    fold (\<lambda>(name, v) m. if length name > 2 \<and> take 2 name = ''X-'' then m(name \<mapsto> v) else m)
      hs Map.empty"

text \<open>
  \<^verbatim>\<open>handleInvite\<close>, up to the goroutine that dials the agent (recorded as started):
  404 and return when \<^verbatim>\<open>FindRoute\<close> fails; 100; 500 and return when \<^verbatim>\<open>CreateSession\<close>
  fails; 180; \<^verbatim>\<open>go\<close>.
\<close>

definition handleInvite ::
  "(error + Route list option) \<Rightarrow> (error + Route list) \<Rightarrow> string \<Rightarrow> int \<Rightarrow> Request
     \<Rightarrow> World \<Rightarrow> World option" where
  "handleInvite cached stored sid eph req w =
    (let callID = ReqCallID req;
         toUser = ReqToUser req;
         fromUser = ReqFromUser req;
         headers = routing_headers (ReqHeaders req)
     in
       (case FindRoute cached stored toUser fromUser headers w of
          (Inl err, w1) \<Rightarrow> Some (emit (SIPRespond callID 404) w1)
        | (Inr route, w1) \<Rightarrow>
            (case CreateSession sid eph callID req route (emit (SIPRespond callID 100) w1) of
               None \<Rightarrow> None
             | Some (Inl err, w2) \<Rightarrow> Some (emit (SIPRespond callID 500) w2)
             | Some (Inr session, w2) \<Rightarrow>
                 Some (emit (Go (GoConnectAgent session)) (emit (SIPRespond callID 180) w2)))))"

definition handleAck :: "string \<Rightarrow> World \<Rightarrow> World" where
  "handleAck callID w =
    (case GetSession callID w of
       None \<Rightarrow> w
     | Some session \<Rightarrow> emit (Go (GoStartMedia session)) w)"

text \<open>
  \<^verbatim>\<open>handleBye\<close> and \<^verbatim>\<open>handleCancel\<close> have the same body: when the session is found,
  \<^verbatim>\<open>session.Close()\<close> then \<^verbatim>\<open>s.calls.RemoveSession(callID)\<close>; then 200.
\<close>

definition handleBye :: "string \<Rightarrow> World \<Rightarrow> World option" where
  "handleBye callID w =
    (case (case GetSession callID w of
             None \<Rightarrow> Some w
           | Some session \<Rightarrow>
               (case Close session w of
                  None \<Rightarrow> None
                | Some w1 \<Rightarrow> RemoveSession callID w1)) of
       None \<Rightarrow> None
     | Some w2 \<Rightarrow> Some (emit (SIPRespond callID 200) w2))"

definition handleCancel :: "string \<Rightarrow> World \<Rightarrow> World option" where
  "handleCancel callID w =
    (case (case GetSession callID w of
             None \<Rightarrow> Some w
           | Some session \<Rightarrow>
               (case Close session w of
                  None \<Rightarrow> None
                | Some w1 \<Rightarrow> RemoveSession callID w1)) of
       None \<Rightarrow> None
     | Some w2 \<Rightarrow> Some (emit (SIPRespond callID 200) w2))"

section \<open>Notions used to state the properties\<close>

text \<open>The effects added between an earlier and a later state.\<close>

definition new_effects :: "World \<Rightarrow> World \<Rightarrow> effect list" where
  "new_effects w w' = drop (length (trace w)) (trace w')"

text \<open>\<open>n\<close> calls of \<^verbatim>\<open>Close\<close> on one session, and of \<^verbatim>\<open>RemoveSession\<close> on one Call-ID, in sequence.\<close>

fun Close_times :: "nat \<Rightarrow> addr \<Rightarrow> World \<Rightarrow> World option" where
  "Close_times 0 s w = Some w"
| "Close_times (Suc n) s w = (case Close s w of None \<Rightarrow> None | Some w' \<Rightarrow> Close_times n s w')"

fun RemoveSession_times :: "nat \<Rightarrow> string \<Rightarrow> World \<Rightarrow> World option" where
  "RemoveSession_times 0 k w = Some w"
| "RemoveSession_times (Suc n) k w =
    (case RemoveSession k w of None \<Rightarrow> None | Some w' \<Rightarrow> RemoveSession_times n k w')"

text \<open>The effects of the one call of \<^verbatim>\<open>Close\<close> that finds session \<open>x\<close> at \<open>s\<close> not closed.\<close>

definition close_effects :: "addr \<Rightarrow> Session \<Rightarrow> effect list" where
  "close_effects s x =
    [CloseStopChan s]
    @ (case wsConn x of
         None \<Rightarrow> []
       | Some c \<Rightarrow> [WSWriteJSON c (StopMessage (StreamSID x)), WSClose c])
    @ (case rtpConn x of None \<Rightarrow> [] | Some p \<Rightarrow> [UDPClose p])"

fun is_stop_frame :: "effect \<Rightarrow> bool" where
  "is_stop_frame (WSWriteJSON c (StopMessage sid)) = True"
| "is_stop_frame e = False"

fun is_status_update :: "effect \<Rightarrow> bool" where
  "is_status_update (StoreUpdateCallStatus k st) = True"
| "is_status_update e = False"

fun is_sip_response :: "effect \<Rightarrow> bool" where
  "is_sip_response (SIPRespond k code) = True"
| "is_sip_response e = False"

fun is_call_log_create :: "effect \<Rightarrow> bool" where
  "is_call_log_create (StoreCreateCallLog k st) = True"
| "is_call_log_create e = False"

text \<open>
  Every session object created so far has its RTP socket for as long as its stop channel
  is not closed.
\<close>

definition sessions_wf :: "World \<Rightarrow> bool" where
  "sessions_wf w =
    list_all (\<lambda>a. rtpConn (heap w a) = None \<longrightarrow> stopChan (heap w a) = ClosedChan)
      [0..<next_addr w]"

section \<open>Example states\<close>

definition route_std :: Route where
  "route_std =
    \<lparr>ID = ''r-std'', AccountID = ''acct-1'', Name = ''standard'', Priority = 10,
     MatchToUser = Some ''1000'', MatchFromUser = None, MatchSIPHeader = None,
     MatchSIPHeaderValue = None, WebSocketURL = ''ws://std'', Active = True\<rparr>"

definition route_vip :: Route where
  "route_vip =
    \<lparr>ID = ''r-vip'', AccountID = ''acct-1'', Name = ''vip'', Priority = 100,
     MatchToUser = None, MatchFromUser = None, MatchSIPHeader = Some ''X-Customer-Tier'',
     MatchSIPHeaderValue = Some ''vip'', WebSocketURL = ''ws://vip'', Active = True\<rparr>"

definition demo_config :: Config where
  "demo_config = \<lparr>RTPPortMin = 10000, RTPPortMax = 10002, DefaultWebSocketURL = []\<rparr>"

text \<open>A call in the media state: port bound, agent connected, no RTP received yet.\<close>

definition demo_session :: Session where
  "demo_session =
    \<lparr>CallID = ''c1'', StreamSID = ''stream-1'', FromURI = ''sip:alice@example.org'',
     ToURI = ''sip:1000@example.org'', FromUser = ''alice'', ToUser = ''1000'',
     SessionRoute = route_std, SessionWebSocketURL = ''ws://std'',
     rtpConn = Some 10000, rtpPort = 10000, remoteAddr = None, wsConn = Some 7,
     closed = False, stopChan = OpenChan, chunkCount = 0\<rparr>"

definition demo_world :: World where
  "demo_world =
    \<lparr>config = demo_config, cache = True, sessions = [''c1'' \<mapsto> 0],
     heap = (\<lambda>a. demo_session), next_addr = 1,
     udp_free = (\<lambda>p. 10000 < p \<and> p \<le> 65535), trace = []\<rparr>"

definition demo_request :: Request where
  "demo_request =
    \<lparr>ReqCallID = ''c1'', ReqToURI = ''sip:1000@example.org'', ReqToUser = ''1000'',
     ReqFromURI = ''sip:alice@example.org'', ReqFromUser = ''alice'',
     ReqHeaders = [(''X-Customer-Tier'', ''vip''), (''Via'', ''SIP/2.0/UDP host'')]\<rparr>"

text \<open>Two catch-all routes of equal priority; \<open>a-catch-all\<close> sorts before \<open>b-catch-all\<close>.\<close>

definition route_tie_a :: Route where
  "route_tie_a =
    \<lparr>ID = ''r-a'', AccountID = ''acct-1'', Name = ''a-catch-all'', Priority = 10,
     MatchToUser = None, MatchFromUser = None, MatchSIPHeader = None,
     MatchSIPHeaderValue = None, WebSocketURL = ''ws://a'', Active = True\<rparr>"

definition route_tie_b :: Route where
  "route_tie_b =
    \<lparr>ID = ''r-b'', AccountID = ''acct-1'', Name = ''b-catch-all'', Priority = 10,
     MatchToUser = None, MatchFromUser = None, MatchSIPHeader = None,
     MatchSIPHeaderValue = None, WebSocketURL = ''ws://b'', Active = True\<rparr>"

text \<open>The example with every port taken, and with a default agent URL.\<close>

definition busy_world :: World where
  "busy_world = demo_world\<lparr>udp_free := (\<lambda>p. False)\<rparr>"

definition fallback_world :: World where
  "fallback_world = demo_world\<lparr>config := demo_config\<lparr>DefaultWebSocketURL := ''ws://fallback''\<rparr>\<rparr>"

text \<open>The example before the agent is connected (\<^verbatim>\<open>wsConn\<close> still nil).\<close>

definition ringing_world :: World where
  "ringing_world = upd 0 (\<lambda>x. x\<lparr>wsConn := None\<rparr>) demo_world"

text \<open>An INVITE for a user no route names, with no extension header.\<close>

definition unrouted_request :: Request where
  "unrouted_request =
    \<lparr>ReqCallID = ''c9'', ReqToURI = ''sip:9999@example.org'', ReqToUser = ''9999'',
     ReqFromURI = ''sip:bob@example.org'', ReqFromUser = ''bob'',
     ReqHeaders = [(''Via'', ''SIP/2.0/UDP host'')]\<rparr>"

text \<open>Two peers, a well-formed RTP packet of two payload bytes, and the example after
  RTP from \<open>peer_a\<close> has been received (258 chunks so far).\<close>

definition peer_a :: udp_addr where "peer_a = (''192.0.2.1'', 4000)"

definition peer_b :: udp_addr where "peer_b = (''192.0.2.2'', 5000)"

definition rtp_valid :: "byte list" where
  "rtp_valid = [0x80, 0, 0, 1, 0, 0, 0, 0, 0, 0, 0, 1, 0xAA, 0xBB]"

definition talking_world :: World where
  "talking_world = upd 0 (\<lambda>x. x\<lparr>remoteAddr := Some peer_a, chunkCount := 258\<rparr>) demo_world"

section \<open>Route predicate\<close>

lemma configured_iff: "configured p \<longleftrightarrow> (\<exists>v. p = Some v \<and> v \<noteq> [])"
  by (cases p) (simp_all add: configured_def)

text \<open>
  Claim C1. \<open>Matches r to from H\<close> is true exactly when every configured matcher passes:
  an unset or empty \<open>match_to_user\<close> / \<open>match_from_user\<close> always passes and a non-empty one
  passes iff it equals the input; a non-empty \<open>match_sip_header\<close> needs that header to be
  present in \<open>H\<close>, and its value to equal \<open>match_sip_header_value\<close> when that is non-empty.
\<close>

theorem Matches_iff_all_configured_matchers_pass:
  "Matches r toUser fromUser H \<longleftrightarrow>
     (\<forall>m. MatchToUser r = Some m \<and> m \<noteq> [] \<longrightarrow> toUser = m) \<and>
     (\<forall>m. MatchFromUser r = Some m \<and> m \<noteq> [] \<longrightarrow> fromUser = m) \<and>
     (\<forall>h. MatchSIPHeader r = Some h \<and> h \<noteq> [] \<longrightarrow>
        (\<exists>v. H h = Some v \<and>
           (\<forall>x. MatchSIPHeaderValue r = Some x \<and> x \<noteq> [] \<longrightarrow> v = x)))"
  by (auto simp: Matches_def configured_iff split: option.splits)

theorem Matches_iff_witness:
  "Matches route_vip ''1000'' ''alice'' [''X-Customer-Tier'' \<mapsto> ''vip'']
   \<and> \<not> Matches route_vip ''1000'' ''alice'' [''X-Customer-Tier'' \<mapsto> ''basic'']
   \<and> \<not> Matches route_vip ''1000'' ''alice'' Map.empty
   \<and> Matches route_std ''1000'' ''alice'' Map.empty
   \<and> \<not> Matches route_std ''2000'' ''alice'' Map.empty"
  by (simp add: Matches_iff_all_configured_matchers_pass route_std_def route_vip_def)

section \<open>Basic facts about the state\<close>

lemma upd_simps [simp]:
  "heap (upd s f w) = (heap w)(s := f (heap w s))"
  "trace (upd s f w) = trace w"
  "sessions (upd s f w) = sessions w"
  "cache (upd s f w) = cache w"
  "config (upd s f w) = config w"
  "next_addr (upd s f w) = next_addr w"
  "udp_free (upd s f w) = udp_free w"
  by (simp_all add: upd_def)

lemma emit_simps [simp]:
  "heap (emit e w) = heap w"
  "trace (emit e w) = trace w @ [e]"
  "sessions (emit e w) = sessions w"
  "cache (emit e w) = cache w"
  "config (emit e w) = config w"
  "next_addr (emit e w) = next_addr w"
  "udp_free (emit e w) = udp_free w"
  by (simp_all add: emit_def)

lemma new_effects_append: "trace w' = trace w @ es \<Longrightarrow> new_effects w w' = es"
  by (simp add: new_effects_def)

section \<open>Close and RemoveSession\<close>

lemma Close_closed: "closed (heap w s) \<Longrightarrow> Close s w = Some w"
  by (simp add: Close_def)

lemma Close_open:
  assumes "\<not> closed (heap w s)" and "stopChan (heap w s) = OpenChan"
  shows "\<exists>w'. Close s w = Some w' \<and> closed (heap w' s) \<and> stopChan (heap w' s) = ClosedChan
           \<and> wsConn (heap w' s) = None \<and> rtpConn (heap w' s) = None
           \<and> remoteAddr (heap w' s) = remoteAddr (heap w s)
           \<and> sessions w' = sessions w \<and> cache w' = cache w
           \<and> trace w' = trace w @ close_effects s (heap w s)"
  using assms
  by (auto simp: Close_def Let_def close_effects_def sendWSMessage_def split: option.splits)

lemma Close_times_closed: "closed (heap w s) \<Longrightarrow> Close_times n s w = Some w"
  by (induction n) (simp_all add: Close_closed)

lemma Close_times_open:
  assumes "\<not> closed (heap w s)" and "stopChan (heap w s) = OpenChan" and "0 < n"
  shows "Close_times n s w = Close s w"
proof -
  from assms(1,2) obtain w' where c: "Close s w = Some w'" and cl: "closed (heap w' s)"
    using Close_open by blast
  from assms(3) obtain m where n: "n = Suc m" by (cases n) auto
  show ?thesis by (simp add: n c Close_times_closed [OF cl])
qed

lemma stop_frames_close_effects:
  "length (filter is_stop_frame (close_effects s x)) = (if wsConn x = None then 0 else 1)"
  by (simp add: close_effects_def split: option.splits)

lemma status_updates_close_effects: "filter is_status_update (close_effects s x) = []"
  by (simp add: close_effects_def split: option.splits)

lemma count_chan_close_effects: "count_list (close_effects s x) (CloseStopChan s) = 1"
  by (simp add: close_effects_def split: option.splits)

lemma RemoveSession_absent: "sessions w k = None \<Longrightarrow> RemoveSession k w = Some w"
  by (simp add: RemoveSession_def)

lemma RemoveSession_times_absent: "sessions w k = None \<Longrightarrow> RemoveSession_times n k w = Some w"
  by (induction n) (simp_all add: RemoveSession_absent)

lemma RemoveSession_present:
  assumes "sessions w k = Some s" and "Close s w = Some w1"
  shows "\<exists>w2. RemoveSession k w = Some w2 \<and> sessions w2 = (sessions w1)(k := None)
           \<and> heap w2 = heap w1
           \<and> trace w2 = trace w1 @ [StoreUpdateCallStatus k CallStatusCompleted]
                @ (if cache w1 then [CacheRemoveActiveCall k] else [])"
  using assms by (simp add: RemoveSession_def Let_def)

lemma RemoveSession_times_present:
  assumes "sessions w k = Some s" and "Close s w = Some w1" and "0 < n"
  shows "RemoveSession_times n k w = RemoveSession k w"
proof -
  from RemoveSession_present [OF assms(1,2)] obtain w2
    where r: "RemoveSession k w = Some w2" and s2: "sessions w2 = (sessions w1)(k := None)"
    by blast
  from assms(3) obtain m where n: "n = Suc m" by (cases n) auto
  have "sessions w2 k = None" by (simp add: s2)
  then show ?thesis by (simp add: n r RemoveSession_times_absent)
qed

text \<open>
  Claim C2, as the code has it. On a session that is not yet closed, \<open>n \<ge> 1\<close> calls of
  \<^verbatim>\<open>Close\<close> do what one call does and a further call changes nothing: the stop channel is
  closed exactly once, one Stop frame is written when the agent WebSocket is connected
  and none when it is not, and \<^verbatim>\<open>Close\<close> makes no call-log update and leaves the registry
  entry. The update to \<open>completed\<close> is \<^verbatim>\<open>RemoveSession\<close>'s: \<open>n \<ge> 1\<close> calls of it for the
  registered Call-ID do what one call does, delete the entry, and make exactly one
  status update, with the same single close of the stop channel and Stop frame.
\<close>

theorem Close_single_shot:
  assumes "\<not> closed (heap w s)" and "stopChan (heap w s) = OpenChan"
    and "sessions w k = Some s" and "0 < n"
  shows "\<exists>w1 w2.
      Close_times n s w = Some w1 \<and> Close s w = Some w1 \<and> Close s w1 = Some w1
      \<and> new_effects w w1 = close_effects s (heap w s)
      \<and> count_list (new_effects w w1) (CloseStopChan s) = 1
      \<and> length (filter is_stop_frame (new_effects w w1)) = (if wsConn (heap w s) = None then 0 else 1)
      \<and> filter is_status_update (new_effects w w1) = []
      \<and> sessions w1 k = Some s
      \<and> RemoveSession_times n k w = Some w2 \<and> RemoveSession k w = Some w2
      \<and> RemoveSession k w2 = Some w2
      \<and> sessions w2 k = None
      \<and> filter is_status_update (new_effects w w2) = [StoreUpdateCallStatus k CallStatusCompleted]
      \<and> count_list (new_effects w w2) (CloseStopChan s) = 1
      \<and> length (filter is_stop_frame (new_effects w w2)) = (if wsConn (heap w s) = None then 0 else 1)"
proof -
  from Close_open [OF assms(1,2)] obtain w1 where
    c: "Close s w = Some w1" and cl: "closed (heap w1 s)" and
    ss: "sessions w1 = sessions w" and
    tr: "trace w1 = trace w @ close_effects s (heap w s)"
    by blast
  from RemoveSession_present [OF assms(3) c] obtain w2 where
    r: "RemoveSession k w = Some w2" and s2: "sessions w2 = (sessions w1)(k := None)" and
    tr2: "trace w2 = trace w1 @ [StoreUpdateCallStatus k CallStatusCompleted]
                @ (if cache w1 then [CacheRemoveActiveCall k] else [])"
    by blast
  have ne1: "new_effects w w1 = close_effects s (heap w s)"
    by (rule new_effects_append [OF tr])
  have ne2: "new_effects w w2 = close_effects s (heap w s)
        @ [StoreUpdateCallStatus k CallStatusCompleted]
        @ (if cache w1 then [CacheRemoveActiveCall k] else [])"
    by (rule new_effects_append) (simp add: tr2 tr)
  have a: "Close_times n s w = Some w1"
    using Close_times_open [OF assms(1,2,4)] c by simp
  have b: "RemoveSession_times n k w = Some w2"
    using RemoveSession_times_present [OF assms(3) c assms(4)] r by simp
  have k2: "sessions w2 k = None" by (simp add: s2)
  show ?thesis
    apply (rule exI [of _ w1], rule exI [of _ w2])
    apply (simp add: a b c r k2 ne1 ne2 Close_closed [OF cl] RemoveSession_absent [OF k2]
        stop_frames_close_effects status_updates_close_effects count_chan_close_effects
        ss assms(3))
    done
qed

theorem Close_single_shot_witness:
  "\<exists>w1 w2. Close_times 3 0 demo_world = Some w1
     \<and> RemoveSession_times 3 ''c1'' demo_world = Some w2
     \<and> new_effects demo_world w1 =
         [CloseStopChan 0, WSWriteJSON 7 (StopMessage ''stream-1''), WSClose 7, UDPClose 10000]
     \<and> filter is_status_update (new_effects demo_world w2) =
         [StoreUpdateCallStatus ''c1'' CallStatusCompleted]"
proof -
  have 1: "\<not> closed (heap demo_world 0)" by (simp add: demo_world_def demo_session_def demo_config_def)
  have 2: "stopChan (heap demo_world 0) = OpenChan" by (simp add: demo_world_def demo_session_def demo_config_def)
  have 3: "sessions demo_world ''c1'' = Some 0" by (simp add: demo_world_def demo_session_def demo_config_def)
  have 4: "(0::nat) < 3" by simp
  from Close_single_shot [OF 1 2 3 4] obtain w1 w2 where
    "Close_times 3 0 demo_world = Some w1" "RemoveSession_times 3 ''c1'' demo_world = Some w2"
    "new_effects demo_world w1 = close_effects 0 (heap demo_world 0)"
    "filter is_status_update (new_effects demo_world w2) =
       [StoreUpdateCallStatus ''c1'' CallStatusCompleted]"
    by blast
  then show ?thesis by (simp add: close_effects_def demo_world_def demo_session_def)
qed

text \<open>
  Three calls of \<^verbatim>\<open>Close\<close> on the connected session of the example make no call-log
  status update at all, where claim C2 says exactly one; and on the session whose agent
  is not connected yet, three calls of \<^verbatim>\<open>Close\<close>, or of \<^verbatim>\<open>RemoveSession\<close>, write no Stop
  frame, where it says exactly one.
\<close>

theorem Close_makes_no_status_update:
  "(case Close_times 3 0 demo_world of
      None \<Rightarrow> False
    | Some w' \<Rightarrow>
        count_list (trace w') (StoreUpdateCallStatus ''c1'' CallStatusCompleted) = 0
        \<and> length (filter is_status_update (trace w')) = 0)
   \<and> (case Close_times 3 0 ringing_world of
        None \<Rightarrow> False
      | Some w' \<Rightarrow> length (filter is_stop_frame (trace w')) = 0)
   \<and> (case RemoveSession_times 3 ''c1'' ringing_world of
        None \<Rightarrow> False
      | Some w' \<Rightarrow> length (filter is_stop_frame (trace w')) = 0)"
  by (simp add: numeral_3_eq_3 Close_def RemoveSession_def Let_def sendWSMessage_def
      ringing_world_def demo_world_def demo_session_def)

section \<open>Terminal transitions\<close>

text \<open>
  BYE and CANCEL: for a registered session that can be closed, the handler closes it,
  takes it out of the registry, updates the call status to \<open>completed\<close>, removes the
  active-call entry when there is a cache, and answers 200.
\<close>

lemma handleBye_terminal:
  assumes "sessions w k = Some s" and "closed (heap w s) \<or> stopChan (heap w s) = OpenChan"
  shows "\<exists>w'. handleBye k w = Some w' \<and> handleCancel k w = Some w'
           \<and> GetSession k w' = None \<and> closed (heap w' s)
           \<and> StoreUpdateCallStatus k CallStatusCompleted \<in> set (new_effects w w')
           \<and> (cache w \<longrightarrow> CacheRemoveActiveCall k \<in> set (new_effects w w'))
           \<and> SIPRespond k 200 \<in> set (new_effects w w')"
proof -
  obtain w1 where c: "Close s w = Some w1" and cl: "closed (heap w1 s)"
    and ss: "sessions w1 = sessions w" and ca: "cache w1 = cache w"
    and tr: "\<exists>es. trace w1 = trace w @ es"
    using assms(2) Close_open [of w s] Close_closed [of w s] by (cases "closed (heap w s)") auto
  from tr obtain es where es: "trace w1 = trace w @ es" by blast
  have c1: "Close s w1 = Some w1" by (rule Close_closed [OF cl])
  have k1: "sessions w1 k = Some s" by (simp add: ss assms(1))
  from RemoveSession_present [OF k1 c1] obtain w2 where
    r: "RemoveSession k w1 = Some w2" and s2: "sessions w2 = (sessions w1)(k := None)"
    and h2: "heap w2 = heap w1"
    and t2: "trace w2 = trace w1 @ [StoreUpdateCallStatus k CallStatusCompleted]
                @ (if cache w1 then [CacheRemoveActiveCall k] else [])"
    by blast
  let ?w' = "emit (SIPRespond k 200) w2"
  have ne: "new_effects w ?w' = es @ [StoreUpdateCallStatus k CallStatusCompleted]
                @ (if cache w then [CacheRemoveActiveCall k] else []) @ [SIPRespond k 200]"
    by (rule new_effects_append) (simp add: t2 es ca)
  show ?thesis
    by (rule exI [of _ ?w'])
      (simp add: handleBye_def handleCancel_def GetSession_def assms(1) c r s2 h2 cl ne)
qed

text \<open>
  The agent's Stop frame: the loop starts \<^verbatim>\<open>go s.Close()\<close> and returns. Once that
  \<^verbatim>\<open>Close\<close> has run, the session is closed but still registered, and no call status
  has been updated.
\<close>

lemma agent_stop_keeps_registry_entry:
  assumes "sessions w k = Some s" and "\<not> closed (heap w s)" and "stopChan (heap w s) = OpenChan"
  shows "\<exists>w2. receiveFromAgent s (WSMessage StopMsg # rs) w = (Returned, emit (Go (GoClose s)) w)
           \<and> Close s (emit (Go (GoClose s)) w) = Some w2
           \<and> closed (heap w2 s) \<and> GetSession k w2 = Some s
           \<and> filter is_status_update (new_effects w w2) = []"
proof -
  let ?w1 = "emit (Go (GoClose s)) w"
  have "\<not> closed (heap ?w1 s)" and "stopChan (heap ?w1 s) = OpenChan"
    using assms by simp_all
  from Close_open [OF this] obtain w2 where
    c: "Close s ?w1 = Some w2" and cl: "closed (heap w2 s)" and
    ss: "sessions w2 = sessions ?w1" and
    tr: "trace w2 = trace ?w1 @ close_effects s (heap ?w1 s)"
    by blast
  have ne: "new_effects w w2 = Go (GoClose s) # close_effects s (heap w s)"
    by (rule new_effects_append) (simp add: tr)
  show ?thesis
    by (rule exI [of _ w2])
      (simp add: assms c cl ss ne GetSession_def status_updates_close_effects)
qed

text \<open>
  Claim C3 at the agent-initiated hangup: in the example (a registered call in the media
  state, with a cache), the agent sends Stop; the loop returns having only started
  \<^verbatim>\<open>go s.Close()\<close>; after that \<^verbatim>\<open>Close\<close> has run the session is closed, and it is still
  the registry's entry for its Call-ID, no call status has been updated, and the
  active-call entry has not been removed.
\<close>

theorem agent_stop_leaves_session_registered:
  "(case receiveFromAgent 0 [WSMessage StopMsg] demo_world of
      (ex, w1) \<Rightarrow> ex = Returned \<and> new_effects demo_world w1 = [Go (GoClose 0)]
        \<and> (case Close 0 w1 of
              None \<Rightarrow> False
            | Some w2 \<Rightarrow> closed (heap w2 0) \<and> cache w2
                \<and> GetSession ''c1'' w2 = Some 0
                \<and> filter is_status_update (trace w2) = []
                \<and> CacheRemoveActiveCall ''c1'' \<notin> set (trace w2)))"
  by (simp add: Close_def Let_def sendWSMessage_def new_effects_def GetSession_def
      demo_world_def demo_session_def)

lemma receiveFromAgent_read_error:
  "receiveFromAgent s (WSReadError # rs) w = (Returned, w)"
  by simp

text \<open>
  Claim C9 at a read error: in the example, \<^verbatim>\<open>ReadMessage\<close> fails; the loop returns and
  nothing else happens: the state is the one before, the session is not closed, its stop
  channel is open, its RTP port is still bound and it is still registered. On a Stop
  frame the same loop does start \<^verbatim>\<open>go s.Close()\<close>.
\<close>

theorem read_error_does_not_close:
  "receiveFromAgent 0 [WSReadError] demo_world = (Returned, demo_world)
   \<and> \<not> closed (heap demo_world 0)
   \<and> stopChan (heap demo_world 0) = OpenChan
   \<and> rtpConn (heap demo_world 0) = Some 10000
   \<and> GetSession ''c1'' demo_world = Some 0
   \<and> receiveFromAgent 0 [WSMessage StopMsg] demo_world
       = (Returned, emit (Go (GoClose 0)) demo_world)"
  by (simp add: GetSession_def demo_world_def demo_session_def)

section \<open>Session creation\<close>

lemma int64_id: "- (2 ^ 63) \<le> x \<Longrightarrow> x < 2 ^ 63 \<Longrightarrow> int64 x = x"
  by (simp add: int64_def)

lemma scanPorts_exhausted:
  assumes "\<forall>q. p \<le> q \<and> q \<le> mx \<longrightarrow> \<not> free q" and "- (2 ^ 63) \<le> p" and "mx < 2 ^ 63 - 1"
  shows "scanPorts free p mx = Some None"
  using assms
proof (induction "nat (mx + 1 - p)" arbitrary: p)
  case 0
  then have "\<not> p \<le> mx" by simp
  then show ?case by (subst scanPorts.simps) simp
next
  case (Suc k)
  then have le: "p \<le> mx" by simp
  with Suc.prems have nf: "\<not> free p" by simp
  have i: "int64 (p + 1) = p + 1"
    using le Suc.prems by (intro int64_id) simp_all
  have "scanPorts free (p + 1) mx = Some None"
    using Suc by (intro Suc.hyps(1)) auto
  then show ?case
    by (subst scanPorts.simps) (simp add: le nf i)
qed

lemma scanPorts_first_free:
  assumes "free q" and "p \<le> q" and "q \<le> mx" and "\<forall>r. p \<le> r \<and> r < q \<longrightarrow> \<not> free r"
    and "- (2 ^ 63) \<le> p" and "q < 2 ^ 63"
  shows "scanPorts free p mx = Some (Some q)"
  using assms
proof (induction "nat (q - p)" arbitrary: p)
  case 0
  then have "p = q" by simp
  with 0 show ?case by (subst scanPorts.simps) simp
next
  case (Suc k)
  then have lt: "p < q" by simp
  with Suc.prems have nf: "\<not> free p" and le: "p \<le> mx" by simp_all
  have i: "int64 (p + 1) = p + 1"
    using lt Suc.prems by (intro int64_id) simp_all
  have "scanPorts free (p + 1) mx = Some (Some q)"
    using Suc lt by (intro Suc.hyps(1)) auto
  then show ?case
    by (subst scanPorts.simps) (simp add: le nf i)
qed

text \<open>For a range that ends below the largest \<^verbatim>\<open>int\<close> the loop ends, and so does \<^verbatim>\<open>CreateSession\<close>.\<close>

lemma scanPorts_returns:
  assumes "- (2 ^ 63) \<le> p" and "mx < 2 ^ 63 - 1"
  shows "\<exists>r. scanPorts free p mx = Some r"
  using assms
proof (induction "nat (mx + 1 - p)" arbitrary: p)
  case 0
  then have "\<not> p \<le> mx" by simp
  then show ?case by (subst scanPorts.simps) simp
next
  case (Suc k)
  then have le: "p \<le> mx" by simp
  have i: "int64 (p + 1) = p + 1"
    using le Suc.prems by (intro int64_id) simp_all
  have "\<exists>r. scanPorts free (p + 1) mx = Some r"
    using Suc by (intro Suc.hyps(1)) auto
  then show ?case
    by (subst scanPorts.simps) (simp add: le i)
qed

lemma CreateSession_error:
  "CreateSession sid eph callID req route w = Some (Inl e, w') \<Longrightarrow>
     w' = w \<and> e = NoAvailableRTPPorts (RTPPortMin (config w)) (RTPPortMax (config w))"
  by (auto simp: CreateSession_def allocateRTPPorts_def Let_def split: option.splits sum.splits if_splits)

lemma CreateSession_exhausted:
  assumes "scanPorts (udp_free w) (RTPPortMin (config w)) (RTPPortMax (config w)) = Some None"
  shows "CreateSession sid eph callID req route w
           = Some (Inl (NoAvailableRTPPorts (RTPPortMin (config w)) (RTPPortMax (config w))), w)"
  using assms by (simp add: CreateSession_def allocateRTPPorts_def)

lemma CreateSession_returns:
  assumes "- (2 ^ 63) \<le> RTPPortMin (config w)" and "RTPPortMax (config w) < 2 ^ 63 - 1"
  shows "\<exists>r. CreateSession sid eph callID req route w = Some r"
proof -
  from scanPorts_returns [OF assms] obtain r where
    "scanPorts (udp_free w) (RTPPortMin (config w)) (RTPPortMax (config w)) = Some r"
    by blast
  then show ?thesis
    by (cases r) (simp_all add: CreateSession_def allocateRTPPorts_def Let_def)
qed

text \<open>
  Claim C10. Whenever \<^verbatim>\<open>CreateSession\<close> returns an error, the error is the exhaustion of
  the port range and the state is the one before: the registry is unchanged (the Call-ID
  is not registered by the call), and no effect is added, so no call-log row is created
  and no active-call entry is set. And it does return that error when no port of the
  range can be bound (for a range that ends below the largest \<^verbatim>\<open>int\<close>, so that the loop
  counter does not wrap; a Go \<^verbatim>\<open>int\<close> is never below \<open>-2^63\<close>).
\<close>

theorem CreateSession_atomic_on_failure:
  "(\<forall>e w'. CreateSession sid eph callID req route w = Some (Inl e, w') \<longrightarrow>
       e = NoAvailableRTPPorts (RTPPortMin (config w)) (RTPPortMax (config w))
       \<and> w' = w \<and> sessions w' = sessions w \<and> new_effects w w' = [])
   \<and> ((\<forall>p. RTPPortMin (config w) \<le> p \<and> p \<le> RTPPortMax (config w) \<longrightarrow> \<not> udp_free w p)
        \<and> - (2 ^ 63) \<le> RTPPortMin (config w) \<and> RTPPortMax (config w) < 2 ^ 63 - 1 \<longrightarrow>
      CreateSession sid eph callID req route w
        = Some (Inl (NoAvailableRTPPorts (RTPPortMin (config w)) (RTPPortMax (config w))), w))"
proof (intro conjI allI impI)
  fix e w' assume c: "CreateSession sid eph callID req route w = Some (Inl e, w')"
  from CreateSession_error [OF c]
  show "e = NoAvailableRTPPorts (RTPPortMin (config w)) (RTPPortMax (config w))"
    and "w' = w" and "sessions w' = sessions w" and "new_effects w w' = []"
    by (simp_all add: new_effects_def)
next
  assume a: "(\<forall>p. RTPPortMin (config w) \<le> p \<and> p \<le> RTPPortMax (config w) \<longrightarrow> \<not> udp_free w p)
        \<and> - (2 ^ 63) \<le> RTPPortMin (config w) \<and> RTPPortMax (config w) < 2 ^ 63 - 1"
  then have "scanPorts (udp_free w) (RTPPortMin (config w)) (RTPPortMax (config w)) = Some None"
    by (intro scanPorts_exhausted) auto
  then show "CreateSession sid eph callID req route w
        = Some (Inl (NoAvailableRTPPorts (RTPPortMin (config w)) (RTPPortMax (config w))), w)"
    by (rule CreateSession_exhausted)
qed

theorem CreateSession_atomic_witness:
  "CreateSession ''stream-2'' 49152 ''c2'' demo_request route_std busy_world
     = Some (Inl (NoAvailableRTPPorts 10000 10002), busy_world)
   \<and> sessions busy_world ''c2'' = None
   \<and> new_effects busy_world busy_world = []"
proof -
  note t = CreateSession_atomic_on_failure
    [of "''stream-2''" 49152 "''c2''" demo_request route_std busy_world]
  have "(\<forall>p. RTPPortMin (config busy_world) \<le> p \<and> p \<le> RTPPortMax (config busy_world)
            \<longrightarrow> \<not> udp_free busy_world p)
        \<and> - (2 ^ 63) \<le> RTPPortMin (config busy_world)
        \<and> RTPPortMax (config busy_world) < 2 ^ 63 - 1"
    by (simp add: busy_world_def demo_world_def demo_config_def)
  with t have c: "CreateSession ''stream-2'' 49152 ''c2'' demo_request route_std busy_world
     = Some (Inl (NoAvailableRTPPorts (RTPPortMin (config busy_world))
                    (RTPPortMax (config busy_world))), busy_world)"
    by blast
  with t have n: "new_effects busy_world busy_world = []"
    by blast
  from c n show ?thesis
    by (simp add: busy_world_def demo_world_def demo_config_def)
qed

lemma CreateSession_success:
  assumes "CreateSession sid eph callID req route w = Some (Inr a, w')"
  shows "a = next_addr w \<and> sessions w' = (sessions w)(callID \<mapsto> a)
         \<and> CallID (heap w' a) = callID \<and> StreamSID (heap w' a) = sid
         \<and> \<not> closed (heap w' a) \<and> stopChan (heap w' a) = OpenChan
         \<and> rtpConn (heap w' a) \<noteq> None \<and> next_addr w' = Suc a
         \<and> (\<forall>b. b \<noteq> a \<longrightarrow> heap w' b = heap w b)"
  using assms
  by (auto simp: CreateSession_def allocateRTPPorts_def Let_def
      split: option.splits sum.splits if_splits)

lemma CreateSession_binds:
  assumes "udp_free w q" and "RTPPortMin (config w) \<le> q" and "q \<le> RTPPortMax (config w)"
    and "\<forall>r. RTPPortMin (config w) \<le> r \<and> r < q \<longrightarrow> \<not> udp_free w r"
    and "- (2 ^ 63) \<le> RTPPortMin (config w)" and "q < 2 ^ 63"
  shows "\<exists>w'. CreateSession sid eph callID req route w = Some (Inr (next_addr w), w')
           \<and> rtpPort (heap w' (next_addr w)) = q
           \<and> rtpConn (heap w' (next_addr w)) = Some (if q = 0 then eph else q)
           \<and> \<not> udp_free w' (if q = 0 then eph else q)"
proof -
  have "scanPorts (udp_free w) (RTPPortMin (config w)) (RTPPortMax (config w)) = Some (Some q)"
    using assms by (intro scanPorts_first_free) auto
  then show ?thesis
    by (simp add: CreateSession_def allocateRTPPorts_def Let_def)
qed

text \<open>
  Claim C4, as the code has it. \<^verbatim>\<open>CreateSession\<close> does not look the Call-ID up. When it
  succeeds, the session it has just built is the one the registry returns for the
  Call-ID afterwards, whatever was registered before, and the entries of the other
  Call-IDs are as before; only when it fails are all entries as before. It succeeds
  whenever a port of the range can be bound.
\<close>

theorem CreateSession_replaces_entry:
  "(\<forall>a w'. CreateSession sid eph callID req route w = Some (Inr a, w') \<longrightarrow>
       GetSession callID w' = Some a \<and> a = next_addr w
       \<and> StreamSID (heap w' a) = sid
       \<and> (\<forall>k. k \<noteq> callID \<longrightarrow> GetSession k w' = GetSession k w))
   \<and> (\<forall>e w'. CreateSession sid eph callID req route w = Some (Inl e, w') \<longrightarrow>
         (\<forall>k. GetSession k w' = GetSession k w))
   \<and> (\<forall>q. udp_free w q \<and> RTPPortMin (config w) \<le> q \<and> q \<le> RTPPortMax (config w)
          \<and> (\<forall>r. RTPPortMin (config w) \<le> r \<and> r < q \<longrightarrow> \<not> udp_free w r)
          \<and> - (2 ^ 63) \<le> RTPPortMin (config w) \<and> q < 2 ^ 63 \<longrightarrow>
        (\<exists>w'. CreateSession sid eph callID req route w = Some (Inr (next_addr w), w')))"
proof (intro conjI allI impI)
  fix a w' assume c: "CreateSession sid eph callID req route w = Some (Inr a, w')"
  from CreateSession_success [OF c]
  show "GetSession callID w' = Some a" and "a = next_addr w" and "StreamSID (heap w' a) = sid"
    by (auto simp: GetSession_def)
  fix k assume "k \<noteq> callID"
  with CreateSession_success [OF c] show "GetSession k w' = GetSession k w"
    by (simp add: GetSession_def)
next
  fix e w' k assume "CreateSession sid eph callID req route w = Some (Inl e, w')"
  from CreateSession_error [OF this] show "GetSession k w' = GetSession k w" by simp
next
  fix q
  assume "udp_free w q \<and> RTPPortMin (config w) \<le> q \<and> q \<le> RTPPortMax (config w)
          \<and> (\<forall>r. RTPPortMin (config w) \<le> r \<and> r < q \<longrightarrow> \<not> udp_free w r)
          \<and> - (2 ^ 63) \<le> RTPPortMin (config w) \<and> q < 2 ^ 63"
  then show "\<exists>w'. CreateSession sid eph callID req route w = Some (Inr (next_addr w), w')"
    using CreateSession_binds [of w q sid eph callID req route] by blast
qed

theorem CreateSession_replaces_witness:
  "(\<exists>w'. CreateSession ''stream-2'' 49152 ''c1'' demo_request route_vip demo_world = Some (Inr 1, w')
      \<and> GetSession ''c1'' w' = Some 1 \<and> GetSession ''c9'' w' = None)
   \<and> (\<exists>e w'. CreateSession ''stream-2'' 49152 ''c1'' demo_request route_vip busy_world
                 = Some (Inl e, w')
         \<and> GetSession ''c1'' w' = Some 0)"
proof -
  have h: "udp_free demo_world 10001 \<and> RTPPortMin (config demo_world) \<le> 10001
      \<and> 10001 \<le> RTPPortMax (config demo_world)
      \<and> (\<forall>r. RTPPortMin (config demo_world) \<le> r \<and> r < 10001 \<longrightarrow> \<not> udp_free demo_world r)
      \<and> - (2 ^ 63) \<le> RTPPortMin (config demo_world) \<and> (10001::int) < 2 ^ 63"
    by (simp add: demo_world_def demo_session_def demo_config_def)
  note t = CreateSession_replaces_entry
    [of "''stream-2''" 49152 "''c1''" demo_request route_vip demo_world]
  from t h obtain w' where
    c: "CreateSession ''stream-2'' 49152 ''c1'' demo_request route_vip demo_world
          = Some (Inr (next_addr demo_world), w')"
    by blast
  with t have "GetSession ''c1'' w' = Some (next_addr demo_world)"
    and "GetSession ''c9'' w' = GetSession ''c9'' demo_world"
    by auto
  with c have 1: "\<exists>w'. CreateSession ''stream-2'' 49152 ''c1'' demo_request route_vip demo_world
        = Some (Inr 1, w')
      \<and> GetSession ''c1'' w' = Some 1 \<and> GetSession ''c9'' w' = None"
    by (simp add: GetSession_def demo_world_def)
  note u = CreateSession_replaces_entry
    [of "''stream-2''" 49152 "''c1''" demo_request route_vip busy_world]
  have "\<exists>e w2. CreateSession ''stream-2'' 49152 ''c1'' demo_request route_vip busy_world
                 = Some (Inl e, w2)"
    by (simp add: CreateSession_def allocateRTPPorts_def scanPorts.simps int64_def
        busy_world_def demo_world_def demo_config_def)
  then obtain e w2 where
    f: "CreateSession ''stream-2'' 49152 ''c1'' demo_request route_vip busy_world = Some (Inl e, w2)"
    by blast
  from u f have "GetSession ''c1'' w2 = GetSession ''c1'' busy_world"
    by blast
  also have "\<dots> = Some 0"
    by (simp add: GetSession_def busy_world_def demo_world_def)
  finally have 2: "\<exists>e w'. CreateSession ''stream-2'' 49152 ''c1'' demo_request route_vip busy_world
                 = Some (Inl e, w')
         \<and> GetSession ''c1'' w' = Some 0"
    using f by blast
  from 1 2 show ?thesis by (intro conjI)
qed

text \<open>
  In the example \<open>c1\<close> is registered with the session at address 0. A second
  \<^verbatim>\<open>CreateSession\<close> for \<open>c1\<close> is accepted, and the lookup then returns the new session at
  address 1 (stream \<open>stream-2\<close>), not the one registered before (stream \<open>stream-1\<close>).
\<close>

theorem CreateSession_overwrites:
  "GetSession ''c1'' demo_world = Some 0
   \<and> (case CreateSession ''stream-2'' 49152 ''c1'' demo_request route_vip demo_world of
        None \<Rightarrow> False
      | Some (r, w') \<Rightarrow> r = Inr 1 \<and> GetSession ''c1'' w' = Some 1
          \<and> StreamSID (heap w' 1) = ''stream-2'' \<and> StreamSID (heap w' 0) = ''stream-1'')"
  by (simp add: CreateSession_def allocateRTPPorts_def scanPorts.simps int64_def Let_def
      GetSession_def emit_def demo_world_def demo_session_def demo_config_def)

section \<open>Route selection\<close>

lemma find_None_iff_Ball: "find P xs = None \<longleftrightarrow> (\<forall>x\<in>set xs. \<not> P x)"
  by (auto simp: find_None_iff)

lemma find_Some_first:
  assumes "find P xs = Some x"
  shows "P x \<and> (\<exists>i<length xs. xs ! i = x \<and> (\<forall>j<i. \<not> P (xs ! j)))"
  using assms by (auto simp: find_Some_iff)

text \<open>
  The result of \<^verbatim>\<open>FindRoute\<close> from what the cache and the store return: on a cache hit the
  cached slice is searched and the store is not asked; otherwise the store's rows are
  searched, and a store error is returned wrapped.
\<close>

lemma FindRoute_result:
  "fst (FindRoute cached stored toUser fromUser headers w) =
    (if cache w \<and> (\<exists>cs. cached = Inr (Some cs)) then
       (case cached of Inr (Some rs) \<Rightarrow>
          (case find (\<lambda>route. Matches route toUser fromUser headers) rs of
             Some route \<Rightarrow> Inr route
           | None \<Rightarrow> if DefaultWebSocketURL (config w) \<noteq> []
                     then Inr (default_route (DefaultWebSocketURL (config w)))
                     else Inl (NoMatchingRoute toUser fromUser)))
     else
       (case stored of
          Inl err \<Rightarrow> Inl (FailedToFindRoutes err)
        | Inr rs \<Rightarrow>
          (case find (\<lambda>route. Matches route toUser fromUser headers) rs of
             Some route \<Rightarrow> Inr route
           | None \<Rightarrow> if DefaultWebSocketURL (config w) \<noteq> []
                     then Inr (default_route (DefaultWebSocketURL (config w)))
                     else Inl (NoMatchingRoute toUser fromUser))))"
  by (auto simp: FindRoute_def candidate_routes_def Let_def split: option.splits sum.splits)

text \<open>
  The route returned is the first candidate of the slice that matches; when the slice
  is in priority-descending order, every candidate of higher priority has failed.
\<close>

lemma FindRoute_first_passing:
  assumes "cache w \<and> cached = Inr (Some rs)
           \<or> \<not> (cache w \<and> (\<exists>cs. cached = Inr (Some cs))) \<and> stored = Inr rs"
    and "find (\<lambda>route. Matches route toUser fromUser headers) rs = Some r"
  shows "fst (FindRoute cached stored toUser fromUser headers w) = Inr r
         \<and> Matches r toUser fromUser headers
         \<and> (\<exists>i<length rs. rs ! i = r \<and> (\<forall>j<i. \<not> Matches (rs ! j) toUser fromUser headers))"
  using assms find_Some_first [OF assms(2)] unfolding FindRoute_result by auto

lemma FindRoute_higher_priority_fails:
  assumes "priority_desc rs"
    and "find (\<lambda>route. Matches route toUser fromUser headers) rs = Some r"
    and "c \<in> set rs" and "Priority r < Priority c"
  shows "\<not> Matches c toUser fromUser headers"
proof -
  from find_Some_first [OF assms(2)] obtain i where
    i: "i < length rs" "rs ! i = r" "\<forall>j<i. \<not> Matches (rs ! j) toUser fromUser headers"
    by blast
  from assms(3) obtain j where j: "j < length rs" "rs ! j = c"
    by (auto simp: in_set_conv_nth)
  have "j < i"
  proof (rule ccontr)
    assume "\<not> j < i"
    then have "i = j \<or> i < j" by auto
    then show False
    proof
      assume "i = j" with i j assms(4) show False by simp
    next
      assume "i < j"
      with assms(1) j(1) have "Priority (rs ! j) \<le> Priority (rs ! i)"
        by (simp add: priority_desc_def sorted_wrt_iff_nth_less)
      with i j assms(4) show False by simp
    qed
  qed
  with i j show ?thesis by auto
qed

text \<open>
  Claim C5 at a tie. The table holds two catch-all routes of priority 10, \<open>b-catch-all\<close>
  stored before \<open>a-catch-all\<close>. The rows in that order are a result of
  \<^verbatim>\<open>FindMatchingRoutes\<close>, whose \<^verbatim>\<open>ORDER BY\<close> names the priority only, and \<^verbatim>\<open>FindRoute\<close>
  returns \<open>b-catch-all\<close>, although \<open>a-catch-all\<close> has the same priority, the smaller
  name, and matches.
\<close>

theorem FindRoute_tie_not_broken_by_name:
  "FindMatchingRoutes_rows [route_tie_b, route_tie_a] ''1000'' ''alice'' [route_tie_b, route_tie_a]
   \<and> fst (FindRoute (Inr None) (Inr [route_tie_b, route_tie_a]) ''1000'' ''alice'' Map.empty
            demo_world) = Inr route_tie_b
   \<and> Priority route_tie_a = Priority route_tie_b
   \<and> Name route_tie_a < Name route_tie_b
   \<and> Matches route_tie_a ''1000'' ''alice'' Map.empty"
  by (simp add: FindMatchingRoutes_rows_def sql_where_def priority_desc_def FindRoute_def
      candidate_routes_def Matches_def configured_def route_tie_a_def route_tie_b_def
      demo_world_def)

lemma candidate_routes_world:
  assumes "candidate_routes cached stored toUser fromUser w = Inr (rs, w1)"
  shows "w1 = w \<or> w1 = emit (CacheRoutes toUser fromUser rs) w"
  using assms
  by (auto simp: candidate_routes_def Let_def split: option.splits sum.splits if_splits)

lemma FindRoute_no_match_inputs:
  "fst (FindRoute cached stored toUser fromUser headers w) = Inl (NoMatchingRoute toUser fromUser)
    \<longleftrightarrow> DefaultWebSocketURL (config w) = []
       \<and> (\<exists>rs. (cache w \<and> cached = Inr (Some rs)
                \<or> \<not> (cache w \<and> (\<exists>cs. cached = Inr (Some cs))) \<and> stored = Inr rs)
              \<and> (\<forall>r\<in>set rs. \<not> Matches r toUser fromUser headers))"
  unfolding FindRoute_result
  by (auto simp: find_None_iff_Ball [symmetric] split: option.splits sum.splits)

lemma FindRoute_default_inputs:
  assumes "cache w \<and> cached = Inr (Some rs)
           \<or> \<not> (cache w \<and> (\<exists>cs. cached = Inr (Some cs))) \<and> stored = Inr rs"
    and "\<forall>r\<in>set rs. \<not> Matches r toUser fromUser headers"
    and "DefaultWebSocketURL (config w) \<noteq> []"
  shows "fst (FindRoute cached stored toUser fromUser headers w)
           = Inr (default_route (DefaultWebSocketURL (config w)))"
proof -
  have "find (\<lambda>route. Matches route toUser fromUser headers) rs = None"
    using assms(2) by (simp add: find_None_iff_Ball)
  then show ?thesis
    using assms(1,3) unfolding FindRoute_result by auto
qed

lemma FindRoute_error_world:
  assumes "FindRoute cached stored toUser fromUser headers w = (Inl e, w1)"
  shows "sessions w1 = sessions w \<and> heap w1 = heap w \<and> next_addr w1 = next_addr w
         \<and> (\<exists>es. trace w1 = trace w @ es \<and> filter is_sip_response es = []
                \<and> filter is_call_log_create es = [])"
proof (cases "candidate_routes cached stored toUser fromUser w")
  case (Inl e')
  with assms show ?thesis by (simp add: FindRoute_def)
next
  case (Inr p)
  obtain rs w' where p: "p = (rs, w')" by (cases p)
  from assms Inr p have "w1 = w'"
    by (auto simp: FindRoute_def split: option.splits if_splits)
  with candidate_routes_world Inr p
  have "w1 = w \<or> w1 = emit (CacheRoutes toUser fromUser rs) w" by blast
  then show ?thesis by auto
qed

lemma handleInvite_no_route:
  assumes "FindRoute cached stored (ReqToUser req) (ReqFromUser req)
             (routing_headers (ReqHeaders req)) w = (Inl e, w1)"
  shows "handleInvite cached stored sid eph req w = Some (emit (SIPRespond (ReqCallID req) 404) w1)"
  using assms by (simp add: handleInvite_def Let_def)

text \<open>
  Claim C6. The candidates are the cached slice on a cache hit (a cache, no error, a
  slice that is not nil) and the rows the store returns otherwise. \<^verbatim>\<open>FindRoute\<close> fails
  with the no-match error exactly when there are candidates, none of them matches, and
  no default URL is configured. When none matches and a default URL is configured it
  returns the route named \<open>default\<close> with that URL and no matcher. And when it fails
  with the no-match error for the request's users and \<^verbatim>\<open>X-\<close> headers, \<^verbatim>\<open>handleInvite\<close>
  answers 404 and nothing else to the peer, creates no call-log row, and leaves the
  registry and the session objects as they were.
\<close>

theorem FindRoute_no_match:
  "(fst (FindRoute cached stored toUser fromUser headers w) = Inl (NoMatchingRoute toUser fromUser)
    \<longleftrightarrow> DefaultWebSocketURL (config w) = []
       \<and> (\<exists>rs. (cache w \<and> cached = Inr (Some rs)
                \<or> \<not> (cache w \<and> (\<exists>cs. cached = Inr (Some cs))) \<and> stored = Inr rs)
              \<and> (\<forall>r\<in>set rs. \<not> Matches r toUser fromUser headers)))
   \<and> (\<forall>rs. (cache w \<and> cached = Inr (Some rs)
             \<or> \<not> (cache w \<and> (\<exists>cs. cached = Inr (Some cs))) \<and> stored = Inr rs)
          \<and> (\<forall>r\<in>set rs. \<not> Matches r toUser fromUser headers)
          \<and> DefaultWebSocketURL (config w) \<noteq> [] \<longrightarrow>
        fst (FindRoute cached stored toUser fromUser headers w)
          = Inr (default_route (DefaultWebSocketURL (config w)))
        \<and> Name (default_route (DefaultWebSocketURL (config w))) = ''default''
        \<and> WebSocketURL (default_route (DefaultWebSocketURL (config w)))
            = DefaultWebSocketURL (config w)
        \<and> MatchToUser (default_route (DefaultWebSocketURL (config w))) = None
        \<and> MatchFromUser (default_route (DefaultWebSocketURL (config w))) = None
        \<and> MatchSIPHeader (default_route (DefaultWebSocketURL (config w))) = None
        \<and> MatchSIPHeaderValue (default_route (DefaultWebSocketURL (config w))) = None)
   \<and> (toUser = ReqToUser req \<and> fromUser = ReqFromUser req
        \<and> headers = routing_headers (ReqHeaders req)
        \<and> fst (FindRoute cached stored toUser fromUser headers w)
            = Inl (NoMatchingRoute toUser fromUser) \<longrightarrow>
      (\<exists>w'. handleInvite cached stored sid eph req w = Some w'
         \<and> sessions w' = sessions w \<and> heap w' = heap w \<and> next_addr w' = next_addr w
         \<and> filter is_sip_response (new_effects w w') = [SIPRespond (ReqCallID req) 404]
         \<and> filter is_call_log_create (new_effects w w') = []))"
proof (intro conjI allI impI)
  show "fst (FindRoute cached stored toUser fromUser headers w) = Inl (NoMatchingRoute toUser fromUser)
    \<longleftrightarrow> DefaultWebSocketURL (config w) = []
       \<and> (\<exists>rs. (cache w \<and> cached = Inr (Some rs)
                \<or> \<not> (cache w \<and> (\<exists>cs. cached = Inr (Some cs))) \<and> stored = Inr rs)
              \<and> (\<forall>r\<in>set rs. \<not> Matches r toUser fromUser headers))"
    by (rule FindRoute_no_match_inputs)
next
  fix rs
  assume "(cache w \<and> cached = Inr (Some rs)
             \<or> \<not> (cache w \<and> (\<exists>cs. cached = Inr (Some cs))) \<and> stored = Inr rs)
          \<and> (\<forall>r\<in>set rs. \<not> Matches r toUser fromUser headers)
          \<and> DefaultWebSocketURL (config w) \<noteq> []"
  then show "fst (FindRoute cached stored toUser fromUser headers w)
          = Inr (default_route (DefaultWebSocketURL (config w)))"
    using FindRoute_default_inputs [of w cached rs stored toUser fromUser headers] by blast
next
  assume a: "toUser = ReqToUser req \<and> fromUser = ReqFromUser req
        \<and> headers = routing_headers (ReqHeaders req)
        \<and> fst (FindRoute cached stored toUser fromUser headers w)
            = Inl (NoMatchingRoute toUser fromUser)"
  obtain w1 where f: "FindRoute cached stored (ReqToUser req) (ReqFromUser req)
             (routing_headers (ReqHeaders req)) w = (Inl (NoMatchingRoute toUser fromUser), w1)"
    using a by (cases "FindRoute cached stored (ReqToUser req) (ReqFromUser req)
             (routing_headers (ReqHeaders req)) w") auto
  from FindRoute_error_world [OF f] obtain es where
    w1: "sessions w1 = sessions w" "heap w1 = heap w" "next_addr w1 = next_addr w" and
    es: "trace w1 = trace w @ es" "filter is_sip_response es = []"
      "filter is_call_log_create es = []"
    by blast
  let ?w' = "emit (SIPRespond (ReqCallID req) 404) w1"
  have ne: "new_effects w ?w' = es @ [SIPRespond (ReqCallID req) 404]"
    by (rule new_effects_append) (simp add: es)
  show "\<exists>w'. handleInvite cached stored sid eph req w = Some w'
         \<and> sessions w' = sessions w \<and> heap w' = heap w \<and> next_addr w' = next_addr w
         \<and> filter is_sip_response (new_effects w w') = [SIPRespond (ReqCallID req) 404]
         \<and> filter is_call_log_create (new_effects w w') = []"
    by (rule exI [of _ ?w']) (simp add: handleInvite_no_route [OF f] w1 ne es)
qed (simp_all add: default_route_def)

theorem FindRoute_no_match_witness:
  "fst (FindRoute (Inr None) (Inr [route_std]) ''9999'' ''bob'' Map.empty demo_world)
     = Inl (NoMatchingRoute ''9999'' ''bob'')
   \<and> fst (FindRoute (Inr (Some [route_std])) (Inl DBError) ''9999'' ''bob'' Map.empty demo_world)
     = Inl (NoMatchingRoute ''9999'' ''bob'')
   \<and> fst (FindRoute (Inr None) (Inr [route_std]) ''1000'' ''bob'' Map.empty demo_world)
     \<noteq> Inl (NoMatchingRoute ''1000'' ''bob'')
   \<and> (\<exists>w'. handleInvite (Inr None) (Inr [route_std]) ''stream-9'' 49152 unrouted_request
              demo_world = Some w'
         \<and> sessions w' = sessions demo_world
         \<and> filter is_sip_response (new_effects demo_world w') = [SIPRespond ''c9'' 404]
         \<and> filter is_call_log_create (new_effects demo_world w') = [])
   \<and> fst (FindRoute (Inr None) (Inr [route_std]) ''9999'' ''bob'' Map.empty fallback_world)
       = Inr (default_route ''ws://fallback'')"
proof -
  have hs: "routing_headers (ReqHeaders unrouted_request) = Map.empty"
    by (simp add: routing_headers_def unrouted_request_def)
  have nm: "\<forall>r\<in>set [route_std]. \<not> Matches r ''9999'' ''bob'' Map.empty"
    by (simp add: Matches_def configured_def route_std_def)
  have ca: "cache demo_world" and d: "DefaultWebSocketURL (config demo_world) = []"
    by (simp_all add: demo_world_def demo_config_def)
  note t = FindRoute_no_match [of "Inr None" "Inr [route_std]" "''9999''" "''bob''" Map.empty
      demo_world unrouted_request "''stream-9''" 49152]
  have miss: "cache demo_world \<and> Inr None = (Inr (Some [route_std]) :: error + Route list option)
      \<or> \<not> (cache demo_world
             \<and> (\<exists>cs. (Inr None :: error + Route list option) = Inr (Some cs)))
        \<and> (Inr [route_std] :: error + Route list) = Inr [route_std]"
    by simp
  from t miss nm d
  have 1: "fst (FindRoute (Inr None) (Inr [route_std]) ''9999'' ''bob'' Map.empty demo_world)
     = Inl (NoMatchingRoute ''9999'' ''bob'')"
    by blast
  note th = FindRoute_no_match [of "Inr (Some [route_std])" "Inl DBError" "''9999''" "''bob''"
      Map.empty demo_world unrouted_request "''stream-9''" 49152]
  have hit: "cache demo_world
        \<and> (Inr (Some [route_std]) :: error + Route list option) = Inr (Some [route_std])
      \<or> \<not> (cache demo_world
             \<and> (\<exists>cs. (Inr (Some [route_std]) :: error + Route list option) = Inr (Some cs)))
        \<and> (Inl DBError :: error + Route list) = Inr [route_std]"
    by (simp add: ca)
  from th hit nm d
  have h1: "fst (FindRoute (Inr (Some [route_std])) (Inl DBError) ''9999'' ''bob'' Map.empty
                demo_world) = Inl (NoMatchingRoute ''9999'' ''bob'')"
    by blast
  note tm = FindRoute_no_match [of "Inr None" "Inr [route_std]" "''1000''" "''bob''" Map.empty
      demo_world unrouted_request "''stream-9''" 49152]
  have m: "Matches route_std ''1000'' ''bob'' Map.empty"
    by (simp add: Matches_def configured_def route_std_def)
  have "\<not> (\<exists>rs. (cache demo_world \<and> (Inr None :: error + Route list option) = Inr (Some rs)
                \<or> \<not> (cache demo_world
                       \<and> (\<exists>cs. (Inr None :: error + Route list option) = Inr (Some cs)))
                  \<and> (Inr [route_std] :: error + Route list) = Inr rs)
              \<and> (\<forall>r\<in>set rs. \<not> Matches r ''1000'' ''bob'' Map.empty))"
    using m by auto
  with tm
  have m1: "fst (FindRoute (Inr None) (Inr [route_std]) ''1000'' ''bob'' Map.empty demo_world)
     \<noteq> Inl (NoMatchingRoute ''1000'' ''bob'')"
    by blast
  have r: "''9999'' = ReqToUser unrouted_request \<and> ''bob'' = ReqFromUser unrouted_request
      \<and> Map.empty = routing_headers (ReqHeaders unrouted_request)"
    by (simp add: hs) (simp add: unrouted_request_def)
  from t r 1
  have 2: "\<exists>w'. handleInvite (Inr None) (Inr [route_std]) ''stream-9'' 49152 unrouted_request
              demo_world = Some w'
         \<and> sessions w' = sessions demo_world \<and> heap w' = heap demo_world
         \<and> next_addr w' = next_addr demo_world
         \<and> filter is_sip_response (new_effects demo_world w')
             = [SIPRespond (ReqCallID unrouted_request) 404]
         \<and> filter is_call_log_create (new_effects demo_world w') = []"
    by blast
  note t' = FindRoute_no_match [of "Inr None" "Inr [route_std]" "''9999''" "''bob''" Map.empty
      fallback_world unrouted_request "''stream-9''" 49152]
  have miss': "cache fallback_world
        \<and> Inr None = (Inr (Some [route_std]) :: error + Route list option)
      \<or> \<not> (cache fallback_world
             \<and> (\<exists>cs. (Inr None :: error + Route list option) = Inr (Some cs)))
        \<and> (Inr [route_std] :: error + Route list) = Inr [route_std]"
    by simp
  have d': "DefaultWebSocketURL (config fallback_world) = ''ws://fallback''"
    by (simp add: fallback_world_def)
  have dn: "DefaultWebSocketURL (config fallback_world) \<noteq> []"
    by (simp add: d')
  from t' miss' nm dn
  have 3: "fst (FindRoute (Inr None) (Inr [route_std]) ''9999'' ''bob'' Map.empty fallback_world)
       = Inr (default_route (DefaultWebSocketURL (config fallback_world)))"
    by blast
  have cid: "ReqCallID unrouted_request = ''c9''"
    by (simp add: unrouted_request_def)
  from 2 have two: "\<exists>w'. handleInvite (Inr None) (Inr [route_std]) ''stream-9'' 49152
                 unrouted_request demo_world = Some w'
         \<and> sessions w' = sessions demo_world
         \<and> filter is_sip_response (new_effects demo_world w') = [SIPRespond ''c9'' 404]
         \<and> filter is_call_log_create (new_effects demo_world w') = []"
    unfolding cid by blast
  from 3 have three: "fst (FindRoute (Inr None) (Inr [route_std]) ''9999'' ''bob'' Map.empty
                     fallback_world) = Inr (default_route ''ws://fallback'')"
    by (simp add: d')
  from 1 h1 m1 two three show ?thesis by (intro conjI)
qed

section \<open>RTP receive loop\<close>

text \<open>
  A datagram of 12 to 1500 bytes, agent connected: one Media frame, with the bytes after
  the first 12 as payload and the incremented chunk counter.
\<close>

lemma receiveRTP_valid_datagram:
  assumes "12 \<le> length bytes" and "length bytes \<le> 1500" and "wsConn (heap w s) = Some c"
  shows "new_effects w (receiveRTP_pass s (Datagram bytes a) w)
           = [WSWriteJSON c (MediaMessage (StreamSID (heap w s)) (drop 12 bytes)
                (int64 (chunkCount (heap w s) + 1)))]
         \<and> chunkCount (heap (receiveRTP_pass s (Datagram bytes a) w) s)
             = int64 (chunkCount (heap w s) + 1)"
  using assms
  by (simp add: receiveRTP_pass_def Let_def sendWSMessage_def new_effects_def min_def)

text \<open>
  Claim C7, as the code has it. A datagram shorter than 12 bytes adds no effect (no
  Media frame) and leaves the chunk counter. The peer address is recorded from any
  datagram read while none is recorded, before the length is looked at, and is kept
  once recorded.
\<close>

theorem receiveRTP_short_datagram:
  "(length bytes < 12 \<longrightarrow>
      new_effects w (receiveRTP_pass s (Datagram bytes a) w) = []
      \<and> chunkCount (heap (receiveRTP_pass s (Datagram bytes a) w) s) = chunkCount (heap w s))
   \<and> remoteAddr (heap (receiveRTP_pass s (Datagram bytes a) w) s)
       = (case remoteAddr (heap w s) of None \<Rightarrow> Some a | Some b \<Rightarrow> Some b)"
  by (auto simp: receiveRTP_pass_def Let_def sendWSMessage_def new_effects_def
      split: option.splits)

theorem receiveRTP_short_datagram_witness:
  "new_effects demo_world (receiveRTP_pass 0 (Datagram [1, 2, 3] peer_a) demo_world) = []
   \<and> chunkCount (heap (receiveRTP_pass 0 (Datagram [1, 2, 3] peer_a) demo_world) 0) = 0
   \<and> remoteAddr (heap (receiveRTP_pass 0 (Datagram [1, 2, 3] peer_a) demo_world) 0) = Some peer_a"
  using receiveRTP_short_datagram [of "[1, 2, 3]" demo_world 0 peer_a]
  by (simp add: demo_world_def demo_session_def)

text \<open>
  In the example no peer is known. A 3-byte datagram from \<open>peer_a\<close> is followed by a
  well-formed packet from \<open>peer_b\<close>: the peer recorded is \<open>peer_a\<close>, the sender of the
  short datagram, not the sender of the first valid packet; the only frame to the
  agent is the Media frame of the valid packet.
\<close>

theorem remote_learned_from_short_datagram:
  "remoteAddr (heap demo_world 0) = None
   \<and> remoteAddr (heap (receiveRTP 0 [Datagram [1, 2, 3] peer_a, Datagram rtp_valid peer_b]
        demo_world) 0) = Some peer_a
   \<and> new_effects demo_world
       (receiveRTP 0 [Datagram [1, 2, 3] peer_a, Datagram rtp_valid peer_b] demo_world)
       = [WSWriteJSON 7 (MediaMessage ''stream-1'' [0xAA, 0xBB] 1)]"
  by (simp add: receiveRTP_pass_def Let_def sendWSMessage_def new_effects_def int64_def
      rtp_valid_def peer_a_def peer_b_def demo_world_def demo_session_def)

section \<open>An invariant of the session objects\<close>

text \<open>
  The invariant holds while no session has been created, and each function above keeps
  it: \<^verbatim>\<open>CreateSession\<close> stores a session with its socket bound, and \<^verbatim>\<open>Close\<close> is the only
  function that clears \<^verbatim>\<open>rtpConn\<close>, after closing the stop channel. \<^verbatim>\<open>ConnectAgent\<close> (not
  embedded) assigns \<^verbatim>\<open>s.wsConn\<close> and nothing else of the session.
\<close>

lemma sessions_wf_iff:
  "sessions_wf w \<longleftrightarrow>
     (\<forall>a<next_addr w. rtpConn (heap w a) = None \<longrightarrow> stopChan (heap w a) = ClosedChan)"
  by (auto simp: sessions_wf_def list_all_iff)

lemma sessions_wf_initial: "next_addr w = 0 \<Longrightarrow> sessions_wf w"
  by (simp add: sessions_wf_iff)

lemma sessions_wf_same:
  "heap w' = heap w \<Longrightarrow> next_addr w' = next_addr w \<Longrightarrow> sessions_wf w' = sessions_wf w"
  by (simp add: sessions_wf_iff)

lemma sessions_wf_emit [simp]: "sessions_wf (emit e w) = sessions_wf w"
  by (rule sessions_wf_same) simp_all

lemma sessions_wf_upd:
  assumes "sessions_wf w"
    and "rtpConn (f (heap w s)) = None \<longrightarrow> stopChan (f (heap w s)) = ClosedChan"
  shows "sessions_wf (upd s f w)"
  using assms by (simp add: sessions_wf_iff)

lemma sessions_wf_wsConn: "sessions_wf w \<Longrightarrow> sessions_wf (upd s (\<lambda>x. x\<lparr>wsConn := c\<rparr>) w)"
  by (simp add: sessions_wf_iff)

lemma sessions_wf_sendWSMessage [simp]: "sessions_wf (sendWSMessage s m w) = sessions_wf w"
  by (simp add: sendWSMessage_def split: option.splits)

lemma sessions_wf_sendRTP [simp]: "sessions_wf (sendRTP s p w) = sessions_wf w"
  by (simp add: sendRTP_def Let_def)

lemma sessions_wf_upd_same:
  assumes "\<And>x. rtpConn (f x) = rtpConn x" and "\<And>x. stopChan (f x) = stopChan x"
  shows "sessions_wf (upd s f w) = sessions_wf w"
  by (auto simp: sessions_wf_iff assms)

lemma sessions_wf_receiveRTP_pass:
  assumes "sessions_wf w"
  shows "sessions_wf (receiveRTP_pass s r w)"
proof (cases r)
  case (Datagram bytes a)
  have "sessions_wf (receiveRTP_pass s (Datagram bytes a) w) = sessions_wf w"
    by (simp add: receiveRTP_pass_def Let_def sessions_wf_upd_same)
  with assms Datagram show ?thesis by simp
qed (simp_all add: receiveRTP_pass_def assms)

lemma sessions_wf_receiveRTP: "sessions_wf w \<Longrightarrow> sessions_wf (receiveRTP s rs w)"
  by (induction rs arbitrary: w) (simp_all add: sessions_wf_receiveRTP_pass)

lemma sessions_wf_receiveFromAgent:
  "sessions_wf w \<Longrightarrow> sessions_wf (snd (receiveFromAgent s rs w))"
  by (induction rs arbitrary: w)
    (auto split: ws_read.splits agent_msg.splits option.splits)

lemma sessions_wf_Close:
  assumes "sessions_wf w" and "Close s w = Some w'"
  shows "sessions_wf w'"
  using assms
  by (auto simp: Close_def Let_def sessions_wf_iff sendWSMessage_def
      split: if_splits chan.splits option.splits)

lemma sessions_wf_RemoveSession:
  assumes "sessions_wf w" and "RemoveSession k w = Some w'"
  shows "sessions_wf w'"
proof (cases "sessions w k")
  case None
  with assms show ?thesis by (simp add: RemoveSession_def)
next
  case (Some s)
  with assms(2) obtain w1 where c: "Close s w = Some w1"
    by (auto simp: RemoveSession_def split: option.splits)
  with assms(2) Some have "heap w' = heap w1" and "next_addr w' = next_addr w1"
    by (auto simp: RemoveSession_def Let_def)
  then have "sessions_wf w' = sessions_wf w1"
    by (rule sessions_wf_same)
  with sessions_wf_Close [OF assms(1) c] show ?thesis
    by simp
qed

lemma sessions_wf_handleBye:
  assumes "sessions_wf w" and "handleBye k w = Some w'"
  shows "sessions_wf w'"
proof (cases "sessions w k")
  case None
  with assms show ?thesis by (auto simp: handleBye_def GetSession_def)
next
  case (Some s)
  with assms(2) obtain w1 w2 where c: "Close s w = Some w1"
    and r: "RemoveSession k w1 = Some w2" and w': "w' = emit (SIPRespond k 200) w2"
    by (auto simp: handleBye_def GetSession_def split: option.splits)
  from sessions_wf_RemoveSession [OF sessions_wf_Close [OF assms(1) c] r]
  show ?thesis by (simp add: w')
qed

lemma sessions_wf_handleCancel:
  assumes "sessions_wf w" and "handleCancel k w = Some w'"
  shows "sessions_wf w'"
proof (cases "sessions w k")
  case None
  with assms show ?thesis by (auto simp: handleCancel_def GetSession_def)
next
  case (Some s)
  with assms(2) obtain w1 w2 where c: "Close s w = Some w1"
    and r: "RemoveSession k w1 = Some w2" and w': "w' = emit (SIPRespond k 200) w2"
    by (auto simp: handleCancel_def GetSession_def split: option.splits)
  from sessions_wf_RemoveSession [OF sessions_wf_Close [OF assms(1) c] r]
  show ?thesis by (simp add: w')
qed

lemma sessions_wf_CreateSession:
  assumes "sessions_wf w" and "CreateSession sid eph callID req route w = Some (r, w')"
  shows "sessions_wf w'"
proof (cases r)
  case (Inl e)
  with assms CreateSession_error show ?thesis by blast
next
  case (Inr a)
  from CreateSession_success [OF assms(2) [unfolded Inr]]
  have a: "a = next_addr w" and n: "next_addr w' = Suc a"
    and c: "rtpConn (heap w' a) \<noteq> None" and o: "\<forall>b. b \<noteq> a \<longrightarrow> heap w' b = heap w b"
    by auto
  show ?thesis
    unfolding sessions_wf_iff
  proof (intro allI impI)
    fix b assume "b < next_addr w'" and r: "rtpConn (heap w' b) = None"
    with n c have "b < a" by (cases "b = a") auto
    with a o r assms(1) show "stopChan (heap w' b) = ClosedChan"
      by (simp add: sessions_wf_iff)
  qed
qed

lemma sessions_wf_FindRoute:
  "sessions_wf (snd (FindRoute cached stored t f h w)) = sessions_wf w"
  by (auto simp: FindRoute_def candidate_routes_def Let_def
      split: option.splits sum.splits)

lemma sessions_wf_handleInvite:
  assumes "sessions_wf w" and "handleInvite cached stored sid eph req w = Some w'"
  shows "sessions_wf w'"
proof -
  let ?f = "FindRoute cached stored (ReqToUser req) (ReqFromUser req)
              (routing_headers (ReqHeaders req)) w"
  have f: "sessions_wf (snd ?f)"
    using assms(1) by (simp add: sessions_wf_FindRoute)
  show ?thesis
  proof (cases "fst ?f")
    case (Inl e)
    with assms(2) f show ?thesis
      by (auto simp: handleInvite_def Let_def split: prod.splits)
  next
    case (Inr route)
    have g: "sessions_wf (emit (SIPRespond (ReqCallID req) 100) (snd ?f))"
      using f by simp
    from assms(2) Inr obtain r w2 where
      c: "CreateSession sid eph (ReqCallID req) req route
            (emit (SIPRespond (ReqCallID req) 100) (snd ?f)) = Some (r, w2)"
      and w': "w' = (case r of Inl err \<Rightarrow> emit (SIPRespond (ReqCallID req) 500) w2
                     | Inr session \<Rightarrow> emit (Go (GoConnectAgent session))
                         (emit (SIPRespond (ReqCallID req) 180) w2))"
      by (auto simp: handleInvite_def Let_def split: prod.splits option.splits sum.splits)
    from sessions_wf_CreateSession [OF g c] show ?thesis
      by (simp add: w' split: sum.splits)
  qed
qed

lemma sessions_wf_handleAck: "sessions_wf (handleAck k w) = sessions_wf w"
  by (simp add: handleAck_def split: option.splits)

lemma sessions_wf_StartMedia: "sessions_wf (StartMedia s w) = sessions_wf w"
  by (simp add: StartMedia_def)

section \<open>RTP send path\<close>

lemma rtpHeader_length: "length (rtpHeader c) = 12"
  by (simp add: rtpHeader_def)

lemma sendRTP_sends:
  assumes "remoteAddr (heap w s) = Some ra" and "rtpConn (heap w s) = Some c"
  shows "sendRTP s payload w = emit (UDPWriteTo c (rtpHeader (chunkCount (heap w s)) @ payload) ra) w"
  using assms by (simp add: sendRTP_def)

lemma sendRTP_drops:
  assumes "remoteAddr (heap w s) = None \<or> rtpConn (heap w s) = None"
  shows "sendRTP s payload w = w"
  using assms by (auto simp: sendRTP_def)

text \<open>
  Claim C8. On a session the manager created, a Media event with payload \<open>P\<close> that the
  receive loop takes from the agent (the stop channel is not closed) is handled as
  follows. When a remote RTP address has been learned, exactly one datagram is sent to
  that address, and the loop goes on; its bytes from offset 12 are \<open>P\<close>, and its first
  12 bytes are the RTP header, with version 2 and payload type 0. When no remote address
  is known, nothing is sent. (Once the stop channel is closed the loop returns without
  reading, so no event is taken from the agent.)
\<close>

theorem media_event_round_trip:
  assumes "sessions_wf w" and "s < next_addr w"
  shows
   "(stopChan (heap w s) \<noteq> ClosedChan \<longrightarrow>
       (\<forall>ra. remoteAddr (heap w s) = Some ra \<longrightarrow>
          (\<exists>c packet.
             receiveFromAgent s (WSMessage (MediaMsg (Some payload)) # rs) w
               = receiveFromAgent s rs (emit (UDPWriteTo c packet ra) w)
             \<and> new_effects w (snd (receiveFromAgent s [WSMessage (MediaMsg (Some payload))] w))
                 = [UDPWriteTo c packet ra]
             \<and> rtpConn (heap w s) = Some c
             \<and> drop 12 packet = payload
             \<and> take 12 packet = rtpHeader (chunkCount (heap w s))
             \<and> drop_bit 6 (packet ! 0) = 2
             \<and> (packet ! 1) AND 0x7F = 0))
       \<and> (remoteAddr (heap w s) = None \<longrightarrow>
            receiveFromAgent s (WSMessage (MediaMsg (Some payload)) # rs) w
              = receiveFromAgent s rs w
            \<and> new_effects w (snd (receiveFromAgent s [WSMessage (MediaMsg (Some payload))] w))
                = []))
    \<and> (stopChan (heap w s) = ClosedChan \<longrightarrow>
         receiveFromAgent s (WSMessage (MediaMsg (Some payload)) # rs) w = (Returned, w))"
proof (intro conjI impI allI)
  fix ra
  assume run: "stopChan (heap w s) \<noteq> ClosedChan" and ra: "remoteAddr (heap w s) = Some ra"
  from assms run obtain c where c: "rtpConn (heap w s) = Some c"
    by (auto simp: sessions_wf_iff)
  let ?packet = "rtpHeader (chunkCount (heap w s)) @ payload"
  have sr: "sendRTP s payload w = emit (UDPWriteTo c ?packet ra) w"
    by (rule sendRTP_sends [OF ra c])
  have 1: "receiveFromAgent s (WSMessage (MediaMsg (Some payload)) # rs) w
               = receiveFromAgent s rs (emit (UDPWriteTo c ?packet ra) w)" for rs
    using run by (simp add: sr)
  have 2: "new_effects w (snd (receiveFromAgent s [WSMessage (MediaMsg (Some payload))] w))
                 = [UDPWriteTo c ?packet ra]"
    using run by (simp add: sr new_effects_def)
  have 3: "drop 12 ?packet = payload" "take 12 ?packet = rtpHeader (chunkCount (heap w s))"
    by (simp_all add: rtpHeader_length)
  have 4: "drop_bit 6 (?packet ! 0) = (2 :: byte)" "(?packet ! 1) AND 0x7F = 0"
    by (simp_all add: rtpHeader_def)
  from 1 2 3 4 c
  show "\<exists>c packet.
             receiveFromAgent s (WSMessage (MediaMsg (Some payload)) # rs) w
               = receiveFromAgent s rs (emit (UDPWriteTo c packet ra) w)
             \<and> new_effects w (snd (receiveFromAgent s [WSMessage (MediaMsg (Some payload))] w))
                 = [UDPWriteTo c packet ra]
             \<and> rtpConn (heap w s) = Some c
             \<and> drop 12 packet = payload
             \<and> take 12 packet = rtpHeader (chunkCount (heap w s))
             \<and> drop_bit 6 (packet ! 0) = 2
             \<and> (packet ! 1) AND 0x7F = 0"
    by blast
next
  assume run: "stopChan (heap w s) \<noteq> ClosedChan" and n: "remoteAddr (heap w s) = None"
  have sr: "sendRTP s payload w = w"
    by (rule sendRTP_drops) (simp add: n)
  show "receiveFromAgent s (WSMessage (MediaMsg (Some payload)) # rs) w = receiveFromAgent s rs w"
    using run by (simp add: sr)
  show "new_effects w (snd (receiveFromAgent s [WSMessage (MediaMsg (Some payload))] w)) = []"
    using run by (simp add: sr new_effects_def)
next
  assume "stopChan (heap w s) = ClosedChan"
  then show "receiveFromAgent s (WSMessage (MediaMsg (Some payload)) # rs) w = (Returned, w)"
    by simp
qed

theorem media_event_round_trip_witness:
  "receiveFromAgent 0 [WSMessage (MediaMsg (Some [0xAA, 0xBB]))] talking_world
     = (Waiting,
        emit (UDPWriteTo 10000 [0x80, 0, 1, 2, 0, 0, 0, 0, 0, 0, 0, 1, 0xAA, 0xBB] peer_a)
          talking_world)
   \<and> new_effects demo_world
        (snd (receiveFromAgent 0 [WSMessage (MediaMsg (Some [0xAA, 0xBB]))] demo_world)) = []"
proof -
  have wf: "sessions_wf talking_world" and lt: "0 < next_addr talking_world"
    by (simp_all add: sessions_wf_def talking_world_def demo_world_def demo_session_def)
  note t = media_event_round_trip [OF wf lt, of "[0xAA, 0xBB]" "[]"]
  have run: "stopChan (heap talking_world 0) \<noteq> ClosedChan"
    and ra: "remoteAddr (heap talking_world 0) = Some peer_a"
    and rc: "rtpConn (heap talking_world 0) = Some 10000"
    by (simp_all add: talking_world_def demo_world_def demo_session_def)
  from t run ra obtain c packet where
    p: "receiveFromAgent 0 [WSMessage (MediaMsg (Some [0xAA, 0xBB]))] talking_world
               = receiveFromAgent 0 [] (emit (UDPWriteTo c packet peer_a) talking_world)"
      "rtpConn (heap talking_world 0) = Some c"
      "drop 12 packet = [0xAA, 0xBB]"
      "take 12 packet = rtpHeader (chunkCount (heap talking_world 0))"
    by blast
  have c: "c = 10000" using p(2) rc by simp
  have "packet = take 12 packet @ drop 12 packet" by simp
  also have "\<dots> = [0x80, 0, 1, 2, 0, 0, 0, 0, 0, 0, 0, 1, 0xAA, 0xBB]"
    unfolding p by (simp add: rtpHeader_def talking_world_def demo_world_def demo_session_def)
  finally have pk: "packet = [0x80, 0, 1, 2, 0, 0, 0, 0, 0, 0, 0, 1, 0xAA, 0xBB]" .
  have 1: "receiveFromAgent 0 [WSMessage (MediaMsg (Some [0xAA, 0xBB]))] talking_world
     = (Waiting,
        emit (UDPWriteTo 10000 [0x80, 0, 1, 2, 0, 0, 0, 0, 0, 0, 0, 1, 0xAA, 0xBB] peer_a)
          talking_world)"
    by (subst p(1)) (simp add: c pk run)
  have wf': "sessions_wf demo_world" and lt': "0 < next_addr demo_world"
    by (simp_all add: sessions_wf_def demo_world_def demo_session_def)
  note u = media_event_round_trip [OF wf' lt', of "[0xAA, 0xBB]" "[]"]
  have run': "stopChan (heap demo_world 0) \<noteq> ClosedChan"
    and n: "remoteAddr (heap demo_world 0) = None"
    by (simp_all add: demo_world_def demo_session_def)
  from u run' n
  have 2: "new_effects demo_world
        (snd (receiveFromAgent 0 [WSMessage (MediaMsg (Some [0xAA, 0xBB]))] demo_world)) = []"
    by blast
  from 1 2 show ?thesis by (intro conjI)
qed

end
